theory Spec2Isabelle
  imports Complex_Main "HOL-Library.AList"
begin

section \<open>Python values, errors and dictionaries\<close>

text \<open>
  The development embeds \<^verbatim>\<open>tweetnlp/text_classification/trainer.py\<close>. Exceptions are
  values of type \<open>error\<close>; every \<^verbatim>\<open>assert\<close> of the source is an \<open>AssertionError\<close>
  that carries the constant part of its message. An exception that leaves a call to an
  external library is a \<open>LibraryError\<close> with the library's description of it, whatever
  its Python class, so that it is never confused with an exception this file raises.
\<close>

datatype error =
    AssertionError string
  | TypeError
  | KeyError
  | ValueError
  | OverflowError
  | FileNotFoundError
  | FileExistsError
  | IsADirectoryError
  | NotADirectoryError
  | LibraryError string

text \<open>
  Scalars that travel through dictionaries (hyperparameters, training arguments, metric
  values). Python floats are idealised as real numbers, with the float \<^verbatim>\<open>nan\<close> beside
  them.
\<close>

datatype pyval = PInt int | PFloat real | PNaN | PStr string | PBool bool



text \<open>
  A Python \<^verbatim>\<open>dict\<close> is an association list with distinct keys, in insertion order.
  \<^verbatim>\<open>d[k] = v\<close> replaces the value in place when the key is present and appends the
  pair otherwise, which is \<^const>\<open>AList.update\<close>.
\<close>

type_synonym ('k, 'v) dict = "('k \<times> 'v) list"

definition setitem :: "'k \<Rightarrow> 'v \<Rightarrow> ('k, 'v) dict \<Rightarrow> ('k, 'v) dict" where
  "setitem k v d = AList.update k v d"

text \<open>The outcome of a library call, and how the program sees it.\<close>

type_synonym 'a lib_result = "string + 'a"

definition from_lib :: "'a lib_result \<Rightarrow> error + 'a" where
  "from_lib r = (case r of Inl msg \<Rightarrow> Inl (LibraryError msg) | Inr x \<Rightarrow> Inr x)"

definition getitem :: "('k, 'v) dict \<Rightarrow> 'k \<Rightarrow> error + 'v" where
  "getitem d k = (case map_of d k of None \<Rightarrow> Inl KeyError | Some v \<Rightarrow> Inr v)"


text \<open>\<^verbatim>\<open>{k: v for k, v in d.items()}\<close>\<close>

definition dict_copy :: "('k, 'v) dict \<Rightarrow> ('k, 'v) dict" where
  "dict_copy d = fold (\<lambda>(k, v) acc. setitem k v acc) d []"

text \<open>\<^verbatim>\<open>{v: k for k, v in label_to_id.items()}\<close> (line 54)\<close>

definition invert_dict :: "('k, 'v) dict \<Rightarrow> ('v, 'k) dict" where
  "invert_dict d = fold (\<lambda>(k, v) acc. setitem v k acc) d []"

section \<open>Paths and the file system\<close>

text \<open>
  \<^verbatim>\<open>os.path.join\<close> with two components, as \<^verbatim>\<open>posixpath\<close> computes it. A first
  component that is \<^verbatim>\<open>None\<close> raises \<^verbatim>\<open>TypeError\<close>.
\<close>

definition pj :: "string option \<Rightarrow> string \<Rightarrow> error + string" where
  "pj a b =
     (case a of
        None \<Rightarrow> Inl TypeError
      | Some p \<Rightarrow>
          Inr (if b \<noteq> [] \<and> hd b = CHR ''/'' then b
               else if p = [] \<or> last p = CHR ''/'' then p @ b
               else p @ ''/'' @ b))"

text \<open>\<^verbatim>\<open>os.path.dirname\<close> (posix): the head up to the last slash, trailing slashes removed
  unless the head consists of slashes only.\<close>

definition dirname :: "string \<Rightarrow> string" where
  "dirname p =
     (let head = rev (dropWhile (\<lambda>c. c \<noteq> CHR ''/'') (rev p))
      in if head \<noteq> [] \<and> \<not> list_all (\<lambda>c. c = CHR ''/'') head
         then rev (dropWhile (\<lambda>c. c = CHR ''/'') (rev head))
         else head)"

text \<open>The path itself and every proper prefix that ends before a slash.\<close>

definition path_prefixes :: "string \<Rightarrow> string list" where
  "path_prefixes p =
     filter (\<lambda>q. q \<noteq> []) (map (\<lambda>i. take i p) (filter (\<lambda>i. p ! i = CHR ''/'') [0..<length p])) @ [p]"

text \<open>
  The part of the file system the program touches: regular files with their text, and
  directories. Paths are compared as strings. The working directory is the empty path.
\<close>

record world =
  files :: "string \<rightharpoonup> string"
  dirs :: "string set"

definition path_exists :: "world \<Rightarrow> string \<Rightarrow> bool" where
  "path_exists w p = (files w p \<noteq> None \<or> p \<in> dirs w)"

definition dir_exists :: "world \<Rightarrow> string \<Rightarrow> bool" where
  "dir_exists w d = (d = [] \<or> d \<in> dirs w)"

text \<open>\<^verbatim>\<open>os.makedirs(p, exist_ok=True)\<close>\<close>

definition makedirs :: "string \<Rightarrow> world \<Rightarrow> (error + unit) \<times> world" where
  "makedirs p w =
     (if p = [] then (Inl FileNotFoundError, w)
      else if files w p \<noteq> None then (Inl FileExistsError, w)
      else if list_ex (\<lambda>q. files w q \<noteq> None) (path_prefixes p) then (Inl NotADirectoryError, w)
      else (Inr (), w\<lparr>dirs := dirs w \<union> set (path_prefixes p)\<rparr>))"

text \<open>\<^verbatim>\<open>open(p, 'w')\<close>: the file is created or truncated; its directory must exist.\<close>

definition open_w :: "string \<Rightarrow> world \<Rightarrow> (error + unit) \<times> world" where
  "open_w p w =
     (if p \<in> dirs w then (Inl IsADirectoryError, w)
      else if \<not> dir_exists w (dirname p) then (Inl FileNotFoundError, w)
      else (Inr (), w\<lparr>files := (files w)(p \<mapsto> [])\<rparr>))"

text \<open>Writing to a file that is open for writing.\<close>

definition write_text :: "string \<Rightarrow> string \<Rightarrow> world \<Rightarrow> (error + unit) \<times> world" where
  "write_text p txt w = (Inr (), w\<lparr>files := (files w)(p \<mapsto> txt)\<rparr>)"

text \<open>\<^verbatim>\<open>shutil.copy2(src, dst)\<close> for a destination that names a file.\<close>

definition copy2 :: "string \<Rightarrow> string \<Rightarrow> world \<Rightarrow> (error + unit) \<times> world" where
  "copy2 src dst w =
     (case files w src of
        None \<Rightarrow> (Inl (if src \<in> dirs w then IsADirectoryError else FileNotFoundError), w)
      | Some txt \<Rightarrow>
          (case open_w dst w of
             (Inl e, w') \<Rightarrow> (Inl e, w')
           | (Inr _, w') \<Rightarrow> write_text dst txt w'))"

section \<open>Metric computation (\<^verbatim>\<open>get_metrics\<close>, lines 81 to 113)\<close>

text \<open>
  \<^verbatim>\<open>math.exp\<close> raises \<^verbatim>\<open>OverflowError\<close> when the result exceeds the largest double.
  The largest double whose exponential is finite is \<open>o_threshold\<close> (the overflow
  threshold of the C library's \<^verbatim>\<open>exp\<close>). Below the threshold the result is idealised
  as the real exponential: rounding is not modelled.
\<close>

definition o_threshold :: real where
  "o_threshold = 709.782712893383973096"

definition math_exp :: "real \<Rightarrow> error + real" where
  "math_exp x = (if x > o_threshold then Inl OverflowError else Inr (exp x))"

text \<open>\<^verbatim>\<open>def sigmoid(x): return 1 / (1 + math.exp(-x))\<close>\<close>

definition sigmoid :: "real \<Rightarrow> error + real" where
  "sigmoid x = (case math_exp (- x) of Inl e \<Rightarrow> Inl e | Inr y \<Rightarrow> Inr (1 / (1 + y)))"

text \<open>A list comprehension whose element expression may raise: the first exception ends it.\<close>

fun map_result :: "('a \<Rightarrow> error + 'b) \<Rightarrow> 'a list \<Rightarrow> error + 'b list" where
  "map_result f [] = Inr []"
| "map_result f (x # xs) =
     (case f x of
        Inl e \<Rightarrow> Inl e
      | Inr y \<Rightarrow> (case map_result f xs of Inl e \<Rightarrow> Inl e | Inr ys \<Rightarrow> Inr (y # ys)))"

text \<open>\<^verbatim>\<open>int(sigmoid(j) > 0.5)\<close>\<close>

definition threshold :: "real \<Rightarrow> error + int" where
  "threshold j = (case sigmoid j of Inl e \<Rightarrow> Inl e | Inr p \<Rightarrow> Inr (if p > 0.5 then 1 else 0))"

text \<open>
  \<^verbatim>\<open>np.argmax\<close> along the last axis of a matrix: for each row the first index that holds
  the row's maximum; \<^verbatim>\<open>ValueError\<close> on a row without entries.
\<close>

fun argmax_from :: "nat \<Rightarrow> real \<Rightarrow> nat \<Rightarrow> real list \<Rightarrow> nat" where
  "argmax_from bi bv i [] = bi"
| "argmax_from bi bv i (x # xs) =
     (if x > bv then argmax_from i x (Suc i) xs else argmax_from bi bv (Suc i) xs)"

definition argmax :: "real list \<Rightarrow> error + nat" where
  "argmax row = (case row of [] \<Rightarrow> Inl ValueError | x # xs \<Rightarrow> Inr (argmax_from 0 x 1 xs))"

text \<open>Label arrays: multi-hot rows in multi-label mode, class ids in single-label mode.\<close>

datatype label_array = MultiHot "int list list" | ClassIds "nat list"

text \<open>The prediction step shared by \<^verbatim>\<open>compute_metric_search\<close> and \<^verbatim>\<open>compute_metric_all\<close>
  (lines 95 to 98 and 103 to 106).\<close>

definition predict :: "bool \<Rightarrow> real list list \<Rightarrow> error + label_array" where
  "predict multi_label logits =
     (if multi_label
      then (case map_result (map_result threshold) logits of
              Inl e \<Rightarrow> Inl e | Inr p \<Rightarrow> Inr (MultiHot p))
      else (case map_result argmax logits of
              Inl e \<Rightarrow> Inl e | Inr p \<Rightarrow> Inr (ClassIds p)))"

text \<open>A metric object of the \<^verbatim>\<open>datasets\<close> library, named by what \<^verbatim>\<open>load_metric\<close> was given.\<close>

record metric =
  metric_name :: string
  metric_config :: "string option"

text \<open>What the two closures returned by \<^verbatim>\<open>get_metrics\<close> capture.\<close>

record metric_fns =
  mf_multi_label :: bool
  metric_accuracy :: metric
  metric_f1 :: metric

text \<open>\<^verbatim>\<open>metric.compute(predictions=, references=, average=)\<close> of the library, a parameter.\<close>

type_synonym metric_compute =
  "metric \<Rightarrow> label_array \<Rightarrow> label_array \<Rightarrow> string option \<Rightarrow> (string, pyval) dict lib_result"

definition compute_metric_search ::
  "metric_compute \<Rightarrow> metric_fns \<Rightarrow> real list list \<times> label_array \<Rightarrow> error + (string, pyval) dict" where
  "compute_metric_search compute mf eval_pred =
     (case eval_pred of (logits, labels) \<Rightarrow>
        (case predict (mf_multi_label mf) logits of
           Inl e \<Rightarrow> Inl e
         | Inr predictions \<Rightarrow> from_lib (compute (metric_f1 mf) predictions labels (Some ''micro''))))"

definition compute_metric_all ::
  "metric_compute \<Rightarrow> metric_fns \<Rightarrow> real list list \<times> label_array \<Rightarrow> error + (string, pyval) dict" where
  "compute_metric_all compute mf eval_pred =
     (case eval_pred of (logits, labels) \<Rightarrow>
        (case predict (mf_multi_label mf) logits of
           Inl e \<Rightarrow> Inl e
         | Inr predictions \<Rightarrow>
             (case from_lib (compute (metric_f1 mf) predictions labels (Some ''micro'')) of
                Inl e \<Rightarrow> Inl e
              | Inr micro \<Rightarrow>
             (case getitem micro ''f1'' of
                Inl e \<Rightarrow> Inl e
              | Inr f1 \<Rightarrow>
             (case from_lib (compute (metric_f1 mf) predictions labels (Some ''macro'')) of
                Inl e \<Rightarrow> Inl e
              | Inr macro \<Rightarrow>
             (case getitem macro ''f1'' of
                Inl e \<Rightarrow> Inl e
              | Inr f1_macro \<Rightarrow>
             (case from_lib (compute (metric_accuracy mf) predictions labels None) of
                Inl e \<Rightarrow> Inl e
              | Inr acc \<Rightarrow>
             (case getitem acc ''accuracy'' of
                Inl e \<Rightarrow> Inl e
              | Inr accuracy \<Rightarrow>
                  Inr [(''f1'', f1), (''f1_macro'', f1_macro), (''accuracy'', accuracy)]))))))))"

section \<open>Programs with exceptions, a file system and a call trace\<close>

text \<open>
  Every call that leaves the program (the operating system, a library) is recorded, in
  order, in a trace. A call is recorded whether it returns or raises.
\<close>

type_synonym args = "(string, pyval) dict"

text \<open>The search space of lines 163 to 167: \<^verbatim>\<open>tune.loguniform(lo, hi)\<close> as its bounds,
  \<^verbatim>\<open>tune.choice(xs)\<close> as its candidates. Both only build a description of the domain;
  what the search library checks about the bounds is not modelled.\<close>

record search_space =
  learning_rate :: "real \<times> real"
  num_train_epochs :: "int list"
  per_device_train_batch_size :: "int list"

datatype event =
    EvLoadModel string
  | EvDatasetMap
  | EvLoadMetric string "string option"
  | EvMakedirs string
  | EvTrainerInit args
  | EvHyperparameterSearch search_space string int
  | EvOpen string
  | EvWrite string string
  | EvTrain args
  | EvSaveModel string
  | EvEvaluate
  | EvCreateRepo string string
  | EvGetReadme
  | EvCopy string string
  | EvSystem string int

record sys =
  fs :: world
  trace :: "event list"

type_synonym ('s, 'a) prog = "'s \<Rightarrow> (error + 'a) \<times> 's"

definition ret :: "'a \<Rightarrow> ('s, 'a) prog" where
  "ret x = (\<lambda>s. (Inr x, s))"

definition raise :: "error \<Rightarrow> ('s, 'a) prog" where
  "raise e = (\<lambda>s. (Inl e, s))"

definition pbind :: "('s, 'a) prog \<Rightarrow> ('a \<Rightarrow> ('s, 'b) prog) \<Rightarrow> ('s, 'b) prog" where
  "pbind m f = (\<lambda>s. case m s of (Inl e, s') \<Rightarrow> (Inl e, s') | (Inr x, s') \<Rightarrow> f x s')"

text \<open>A computation without effect that may raise.\<close>

definition lift :: "error + 'a \<Rightarrow> ('s, 'a) prog" where
  "lift r = (\<lambda>s. (r, s))"

text \<open>
  Programs run on a pair of the object (\<^verbatim>\<open>self\<close>; the unit value while the object is
  under construction) and the system. A call to the outside acts on the file system and
  is appended to the trace.
\<close>

definition os_call :: "(world \<Rightarrow> (error + 'a) \<times> world) \<Rightarrow> event \<Rightarrow> ('t \<times> sys, 'a) prog" where
  "os_call f ev =
     (\<lambda>(t, s). case f (fs s) of (r, w') \<Rightarrow> (r, (t, \<lparr>fs = w', trace = trace s @ [ev]\<rparr>)))"

definition lib :: "(world \<Rightarrow> 'a lib_result \<times> world) \<Rightarrow> event \<Rightarrow> ('t \<times> sys, 'a) prog" where
  "lib f ev = os_call (\<lambda>w. case f w of (r, w') \<Rightarrow> (from_lib r, w')) ev"

text \<open>\<^verbatim>\<open>os.system(cmd)\<close>: the exit status is the result; the call does not raise.\<close>

definition system :: "(string \<Rightarrow> world \<Rightarrow> int \<times> world) \<Rightarrow> string \<Rightarrow> ('t \<times> sys, int) prog" where
  "system os cmd =
     (\<lambda>(t, s). case os cmd (fs s) of
        (status, w') \<Rightarrow> (Inr status, (t, \<lparr>fs = w', trace = trace s @ [EvSystem cmd status]\<rparr>)))"

definition get_self :: "('t \<times> sys, 't) prog" where
  "get_self = (\<lambda>(t, s). (Inr t, (t, s)))"

definition get_fs :: "('t \<times> sys, world) prog" where
  "get_fs = (\<lambda>(t, s). (Inr (fs s), (t, s)))"

definition modify_self :: "('t \<Rightarrow> 't) \<Rightarrow> ('t \<times> sys, unit) prog" where
  "modify_self f = (\<lambda>(t, s). (Inr (), (f t, s)))"

section \<open>The libraries the trainer calls\<close>

record model_config =
  label2id :: "(string, int) dict"
  id2label :: "(int, string) dict"
  problem_type :: "string option"

text \<open>How \<^verbatim>\<open>load_model\<close> is called: for the bundle of configuration, tokenizer and model
  (line 57), with \<^verbatim>\<open>return_dict=True\<close> (line 148), with \<^verbatim>\<open>model_only=True\<close> (line 200).\<close>

datatype load_mode = Bundle | ReturnDict | ModelOnly

text \<open>The \<^verbatim>\<open>Trainer\<close> object of the training library.\<close>

record ('m, 'd) hf_trainer =
  t_model :: 'm
  t_args :: args
  t_train_dataset :: "'d option"
  t_eval_dataset :: "'d option"
  t_compute_metrics :: "real list list \<times> label_array \<Rightarrow> error + (string, pyval) dict"
  t_model_init :: "(world \<Rightarrow> 'm lib_result \<times> world) option"

record best_run =
  run_id :: string
  hyperparameters :: "(string, pyval) dict"

record readme_args =
  r_model_name :: string
  r_metric_file :: string
  r_dataset_name :: "string option"
  r_dataset_type :: "string option"
  r_language_model :: string
  r_split_test :: "string option"
  r_split_validation :: "string option"
  r_split_train :: "string option"

text \<open>
  The collaborators are parameters of the model: the model loader and the readme
  template of this package (\<^verbatim>\<open>..util.load_model\<close>, \<^verbatim>\<open>.readme_template.get_readme\<close>), the
  libraries \<^verbatim>\<open>datasets\<close>, \<^verbatim>\<open>transformers\<close>, \<^verbatim>\<open>huggingface_hub\<close>, \<^verbatim>\<open>json\<close>, and the
  operating system. \<open>'m\<close> is a loaded model, \<open>'d\<close> a dataset split. \<^verbatim>\<open>os.system\<close>
  returns the exit status of the shell and does not raise when the command fails.
\<close>

record ('m, 'd) env =
  load_model :: "load_mode \<Rightarrow> string \<Rightarrow> bool \<Rightarrow> model_config \<Rightarrow> world \<Rightarrow> 'm lib_result \<times> world"
  dataset_map :: "'m \<Rightarrow> int \<Rightarrow> (string, 'd) dict \<Rightarrow> world \<Rightarrow> (string, 'd) dict lib_result \<times> world"
  load_metric :: "string \<Rightarrow> string option \<Rightarrow> world \<Rightarrow> metric lib_result \<times> world"
  metric_compute :: metric_compute
  TrainingArguments :: "args \<Rightarrow> args lib_result"
  Trainer :: "('m, 'd) hf_trainer \<Rightarrow> world \<Rightarrow> unit lib_result \<times> world"
  hyperparameter_search ::
    "('m, 'd) hf_trainer \<Rightarrow> search_space \<Rightarrow> string \<Rightarrow> int \<Rightarrow> (string, int) dict
      \<Rightarrow> world \<Rightarrow> best_run lib_result \<times> world"
  trainer_train :: "('m, 'd) hf_trainer \<Rightarrow> world \<Rightarrow> 'm lib_result \<times> world"
  save_model :: "'m \<Rightarrow> string \<Rightarrow> world \<Rightarrow> unit lib_result \<times> world"
  trainer_evaluate :: "('m, 'd) hf_trainer \<Rightarrow> world \<Rightarrow> (string, pyval) dict lib_result \<times> world"
  create_repo :: "string \<Rightarrow> string \<Rightarrow> world \<Rightarrow> string lib_result \<times> world"
  get_readme :: "readme_args \<Rightarrow> world \<Rightarrow> string lib_result \<times> world"
  os_system :: "string \<Rightarrow> world \<Rightarrow> int \<times> world"
  json_dumps :: "int option \<Rightarrow> (string, pyval) dict \<Rightarrow> string lib_result"
  json_loads :: "string \<Rightarrow> (string, pyval) dict lib_result"
  cpu_count :: int
  cuda_device_count :: int

text \<open>\<^verbatim>\<open>with open(path, 'w') as f: json.dump(obj, f)\<close>\<close>

definition write_json ::
  "('m, 'd) env \<Rightarrow> string \<Rightarrow> (string, pyval) dict \<Rightarrow> ('t \<times> sys, unit) prog" where
  "write_json env path obj =
     pbind (os_call (open_w path) (EvOpen path)) (\<lambda>_.
     pbind (lift (from_lib (json_dumps env None obj))) (\<lambda>txt.
     os_call (write_text path txt) (EvWrite path txt)))"

text \<open>\<^verbatim>\<open>with open(path, 'w') as f: f.write(txt)\<close>\<close>

definition write_file :: "string \<Rightarrow> string \<Rightarrow> ('t \<times> sys, unit) prog" where
  "write_file path txt =
     pbind (os_call (open_w path) (EvOpen path)) (\<lambda>_.
     os_call (write_text path txt) (EvWrite path txt))"

section \<open>\<^verbatim>\<open>TrainerTextClassification\<close>\<close>

text \<open>A \<^verbatim>\<open>DatasetDict\<close>: its splits, and the two attributes \<^verbatim>\<open>__init__\<close> probes with
  \<^verbatim>\<open>hasattr\<close> (\<open>None\<close> when the attribute is absent).\<close>

record 'd dataset_dict =
  ds_dataset_name :: "string option option"
  ds_dataset_type :: "string option option"
  ds_splits :: "(string, 'd) dict"

text \<open>The attributes of the object. \<open>model\<close> stands for \<^verbatim>\<open>self.config\<close>,
  \<^verbatim>\<open>self.tokenizer\<close> and \<^verbatim>\<open>self.model\<close>; \<open>metrics\<close> for the two closures
  \<^verbatim>\<open>self.compute_metric_search\<close> and \<^verbatim>\<open>self.compute_metric_all\<close>.\<close>

record ('m, 'd) trainer =
  dataset :: "'d dataset_dict"
  dataset_name :: "string option"
  dataset_type :: "string option"
  language_model :: string
  use_auth_token :: bool
  multi_label :: bool
  output_dir :: "string option"
  model_config :: model_config
  model :: 'm
  max_length :: int
  tokenized_datasets :: "(string, 'd) dict"
  metrics :: metric_fns
  best_model_path :: string
  best_run_hyperparameters_path :: string
  split_test :: "string option"
  split_train :: "string option"
  split_validation :: "string option"

subsection \<open>\<^verbatim>\<open>__init__\<close> (lines 26 to 74)\<close>

record 'd init_args =
  i_language_model :: string
  i_dataset :: "'d dataset_dict"
  i_label_to_id :: "(string, int) dict"
  i_max_length :: int
  i_split_test :: "string option"
  i_split_train :: "string option"
  i_split_validation :: "string option"
  i_use_auth_token :: bool
  i_multi_label :: bool
  i_dataset_name :: "string option"
  i_dataset_type :: "string option"
  i_output_dir :: "string option"

text \<open>The defaults of the keyword parameters.\<close>

definition init_defaults :: "string \<Rightarrow> 'd dataset_dict \<Rightarrow> (string, int) dict \<Rightarrow> 'd init_args" where
  "init_defaults lm ds l2i =
     \<lparr>i_language_model = lm, i_dataset = ds, i_label_to_id = l2i, i_max_length = 128,
      i_split_test = None, i_split_train = None, i_split_validation = None,
      i_use_auth_token = False, i_multi_label = False,
      i_dataset_name = None, i_dataset_type = None, i_output_dir = None\<rparr>"

definition get_metrics :: "('m, 'd) env \<Rightarrow> bool \<Rightarrow> ('t \<times> sys, metric_fns) prog" where
  "get_metrics env ml =
     (let cfg = (if ml then Some ''multilabel'' else None)
      in pbind (lib (load_metric env ''accuracy'' cfg) (EvLoadMetric ''accuracy'' cfg)) (\<lambda>acc.
         pbind (lib (load_metric env ''f1'' cfg) (EvLoadMetric ''f1'' cfg)) (\<lambda>f1.
         ret \<lparr>mf_multi_label = ml, metric_accuracy = acc, metric_f1 = f1\<rparr>)))"

definition TrainerTextClassification_init ::
  "('m, 'd) env \<Rightarrow> 'd init_args \<Rightarrow> (unit \<times> sys, ('m, 'd) trainer) prog" where
  "TrainerTextClassification_init env a =
     (let dn = (case ds_dataset_name (i_dataset a) of Some v \<Rightarrow> v | None \<Rightarrow> i_dataset_name a);
          dt = (case ds_dataset_type (i_dataset a) of Some v \<Rightarrow> v | None \<Rightarrow> i_dataset_type a);
          mc = \<lparr>label2id = i_label_to_id a,
                id2label = invert_dict (i_label_to_id a),
                problem_type = (if i_multi_label a then Some ''multi_label_classification'' else None)\<rparr>
      in pbind (lib (load_model env Bundle (i_language_model a) (i_use_auth_token a) mc)
                    (EvLoadModel (i_language_model a))) (\<lambda>m.
         pbind (lib (dataset_map env m (i_max_length a) (ds_splits (i_dataset a))) EvDatasetMap) (\<lambda>tok.
         pbind (get_metrics env (i_multi_label a)) (\<lambda>mf.
         pbind (lift (pj (i_output_dir a) ''best_model'')) (\<lambda>bmp.
         pbind (lift (pj (i_output_dir a) ''best_run_hyperparameters.json'')) (\<lambda>bhp.
         ret \<lparr>dataset = i_dataset a, dataset_name = dn, dataset_type = dt,
              language_model = i_language_model a, use_auth_token = i_use_auth_token a,
              multi_label = i_multi_label a, output_dir = i_output_dir a,
              model_config = mc, model = m, max_length = i_max_length a,
              tokenized_datasets = tok, metrics = mf,
              best_model_path = bmp, best_run_hyperparameters_path = bhp,
              split_test = i_split_test a, split_train = i_split_train a,
              split_validation = i_split_validation a\<rparr>))))))"

subsection \<open>Helpers shared by the methods\<close>

text \<open>\<^verbatim>\<open>if x is not None: self.attr = x\<close>\<close>

definition set_if_given :: "'a option \<Rightarrow> ('a option \<Rightarrow> 't \<Rightarrow> 't) \<Rightarrow> ('t \<times> sys, unit) prog" where
  "set_if_given x upd = modify_self (\<lambda>t. case x of None \<Rightarrow> t | Some v \<Rightarrow> upd (Some v) t)"

text \<open>\<^verbatim>\<open>assert self.output_dir is not None, msg\<close>; the directory is handed on.\<close>

definition assert_output_dir :: "string \<Rightarrow> (('m, 'd) trainer \<times> sys, string) prog" where
  "assert_output_dir msg =
     pbind get_self (\<lambda>t.
       case output_dir t of None \<Rightarrow> raise (AssertionError msg) | Some d \<Rightarrow> ret d)"

text \<open>The property \<^verbatim>\<open>export_file\<close> (lines 76 to 79).\<close>

definition export_file :: "(('m, 'd) trainer \<times> sys, string) prog" where
  "export_file =
     pbind (assert_output_dir ''output_dir is not defined'') (\<lambda>d. ret (d @ ''/metric.json''))"

text \<open>\<^verbatim>\<open>self.tokenized_datasets[split]\<close>: a split that is \<^verbatim>\<open>None\<close> or unknown is a
  \<^verbatim>\<open>KeyError\<close>.\<close>

definition split_lookup :: "(string, 'd) dict \<Rightarrow> string option \<Rightarrow> error + 'd" where
  "split_lookup ds split = (case split of None \<Rightarrow> Inl KeyError | Some n \<Rightarrow> getitem ds n)"

text \<open>\<^verbatim>\<open>list(range(lo, hi))\<close> on integers: counting up from \<open>lo\<close> while below \<open>hi\<close>.\<close>

function py_range :: "int \<Rightarrow> int \<Rightarrow> int list" where
  "py_range lo hi = (if lo < hi then lo # py_range (lo + 1) hi else [])"
  by pat_completeness auto
termination
  by (relation "measure (\<lambda>(lo, hi). nat (hi - lo))") auto

declare py_range.simps [simp del]

subsection \<open>\<^verbatim>\<open>train\<close> (lines 115 to 191)\<close>

record train_args =
  tr_output_dir :: "string option"
  tr_random_seed :: int
  tr_eval_step :: int
  tr_n_trials :: int
  tr_split_train :: "string option"
  tr_split_validation :: "string option"
  tr_parallel_cpu :: bool
  tr_search_range_lr :: "real list option"
  tr_search_range_epoch :: "int list option"
  tr_search_list_batch :: "int list option"
  tr_ray_result_dir :: string

definition train_defaults :: train_args where
  "train_defaults =
     \<lparr>tr_output_dir = None, tr_random_seed = 42, tr_eval_step = 100, tr_n_trials = 10,
      tr_split_train = None, tr_split_validation = None, tr_parallel_cpu = False,
      tr_search_range_lr = None, tr_search_range_epoch = None, tr_search_list_batch = None,
      tr_ray_result_dir = ''ray_result''\<rparr>"

text \<open>Lines 127 to 155: the output directory, the splits and the \<^verbatim>\<open>Trainer\<close>.\<close>

definition train_setup ::
  "('m, 'd) env \<Rightarrow> train_args \<Rightarrow> (('m, 'd) trainer \<times> sys, ('m, 'd) hf_trainer) prog" where
  "train_setup env a =
     pbind (set_if_given (tr_output_dir a) (\<lambda>v t. t\<lparr>output_dir := v\<rparr>)) (\<lambda>_.
     pbind (assert_output_dir ''output_dir should be specified.'') (\<lambda>d.
     pbind (os_call (makedirs d) (EvMakedirs d)) (\<lambda>_.
     pbind (set_if_given (tr_split_train a) (\<lambda>v t. t\<lparr>split_train := v\<rparr>)) (\<lambda>_.
     pbind (set_if_given (tr_split_validation a) (\<lambda>v t. t\<lparr>split_validation := v\<rparr>)) (\<lambda>_.
     pbind get_self (\<lambda>t.
     pbind (lift (from_lib (TrainingArguments env
                    [(''output_dir'', PStr d), (''evaluation_strategy'', PStr ''steps''),
                     (''eval_steps'', PInt (tr_eval_step a)), (''seed'', PInt (tr_random_seed a))]))) (\<lambda>targs.
     pbind (lift (split_lookup (tokenized_datasets t) (split_train t))) (\<lambda>train_ds.
     pbind (lift (split_lookup (tokenized_datasets t) (split_validation t))) (\<lambda>eval_ds.
     let trainer = \<lparr>t_model = model t, t_args = targs,
                    t_train_dataset = Some train_ds, t_eval_dataset = Some eval_ds,
                    t_compute_metrics = compute_metric_search (metric_compute env) (metrics t),
                    t_model_init = Some (load_model env ReturnDict (language_model t)
                                           (use_auth_token t) (model_config t))\<rparr>
     in pbind (lib (Trainer env trainer) (EvTrainerInit targs)) (\<lambda>_.
        ret trainer))))))))))"

text \<open>Lines 158 to 167: the defaults, the two assertions and the search space.\<close>

definition define_search_space :: "train_args \<Rightarrow> error + search_space" where
  "define_search_space a =
     (let search_range_lr =
            (case tr_search_range_lr a of None \<Rightarrow> [1 / 1000000, 1 / 10000] | Some r \<Rightarrow> r)
      in if length search_range_lr \<noteq> 2
         then Inl (AssertionError ''len(search_range_lr) should be 2'')
         else
           let search_range_epoch =
                 (case tr_search_range_epoch a of None \<Rightarrow> [1, 6] | Some r \<Rightarrow> r)
           in if length search_range_epoch \<noteq> 2
              then Inl (AssertionError ''len(search_range_epoch) should be 2'')
              else
                let search_list_batch =
                      (case tr_search_list_batch a of None \<Rightarrow> [4, 8, 16, 32, 64] | Some b \<Rightarrow> b)
                in Inr \<lparr>learning_rate = (search_range_lr ! 0, search_range_lr ! 1),
                        num_train_epochs = py_range (search_range_epoch ! 0) (search_range_epoch ! 1),
                        per_device_train_batch_size = search_list_batch\<rparr>)"

definition resources_per_trial :: "('m, 'd) env \<Rightarrow> bool \<Rightarrow> (string, int) dict" where
  "resources_per_trial env parallel_cpu =
     [(''cpu'', if parallel_cpu then cpu_count env else 1), (''gpu'', cuda_device_count env)]"

text \<open>Lines 184 to 186: \<^verbatim>\<open>setattr\<close> of every hyperparameter, then the evaluation strategy.\<close>

definition apply_hyperparameters :: "(string, pyval) dict \<Rightarrow> args \<Rightarrow> args" where
  "apply_hyperparameters hp targs =
     setitem ''evaluation_strategy'' (PStr ''no'') (fold (\<lambda>(n, v) acc. setitem n v acc) hp targs)"

text \<open>Lines 172 to 189: the search, and the fine-tuning with the best configuration.\<close>

definition train_search_finetune ::
  "('m, 'd) env \<Rightarrow> train_args \<Rightarrow> ('m, 'd) hf_trainer \<Rightarrow> search_space
     \<Rightarrow> (('m, 'd) trainer \<times> sys, unit) prog" where
  "train_search_finetune env a trainer search_space =
     pbind (lib (hyperparameter_search env trainer search_space (tr_ray_result_dir a)
                  (tr_n_trials a) (resources_per_trial env (tr_parallel_cpu a)))
                (EvHyperparameterSearch search_space (tr_ray_result_dir a) (tr_n_trials a))) (\<lambda>best.
     pbind get_self (\<lambda>t.
     pbind (write_json env (best_run_hyperparameters_path t) (hyperparameters best)) (\<lambda>_.
     let trainer' = trainer\<lparr>t_args := apply_hyperparameters (hyperparameters best) (t_args trainer)\<rparr>
     in pbind (lib (trainer_train env trainer') (EvTrain (t_args trainer'))) (\<lambda>m.
        pbind (lib (save_model env m (best_model_path t)) (EvSaveModel (best_model_path t))) (\<lambda>_.
        ret ())))))"

definition train :: "('m, 'd) env \<Rightarrow> train_args \<Rightarrow> (('m, 'd) trainer \<times> sys, unit) prog" where
  "train env a =
     pbind (train_setup env a) (\<lambda>trainer.
     pbind (lift (define_search_space a)) (\<lambda>search_space.
     train_search_finetune env a trainer search_space))"

subsection \<open>\<^verbatim>\<open>evaluate\<close> (lines 193 to 217)\<close>

record evaluate_args =
  ev_split_test :: "string option"
  ev_output_dir :: "string option"

text \<open>Lines 194 to 206: the attributes, and the model to evaluate. The output directory
  and the model are handed on.\<close>

definition evaluate_load_model ::
  "('m, 'd) env \<Rightarrow> evaluate_args \<Rightarrow> (('m, 'd) trainer \<times> sys, string \<times> 'm) prog" where
  "evaluate_load_model env a =
     pbind (set_if_given (ev_output_dir a) (\<lambda>v t. t\<lparr>output_dir := v\<rparr>)) (\<lambda>_.
     pbind (assert_output_dir ''output_dir should be specified.'') (\<lambda>d.
     pbind (set_if_given (ev_split_test a) (\<lambda>v t. t\<lparr>split_test := v\<rparr>)) (\<lambda>_.
     pbind get_self (\<lambda>t.
     pbind get_fs (\<lambda>w.
     let source = (if \<not> path_exists w (best_model_path t) then language_model t
                   else best_model_path t)
     in pbind (lib (load_model env ModelOnly source (use_auth_token t) (model_config t))
                   (EvLoadModel source)) (\<lambda>m.
        pbind (modify_self (\<lambda>t. t\<lparr>model := m\<rparr>)) (\<lambda>_.
        ret (d, m))))))))"

text \<open>Lines 207 to 217: the \<^verbatim>\<open>Trainer\<close>, its evaluation, and the report.\<close>

definition evaluate_report ::
  "('m, 'd) env \<Rightarrow> string \<Rightarrow> 'm \<Rightarrow> (('m, 'd) trainer \<times> sys, (string, pyval) dict) prog" where
  "evaluate_report env d m =
     pbind get_self (\<lambda>t.
     pbind (lift (from_lib (TrainingArguments env
                    [(''output_dir'', PStr d), (''evaluation_strategy'', PStr ''no'')]))) (\<lambda>targs.
     pbind (lift (split_lookup (tokenized_datasets t) (split_test t))) (\<lambda>test_ds.
     let trainer = \<lparr>t_model = m, t_args = targs,
                    t_train_dataset = None, t_eval_dataset = Some test_ds,
                    t_compute_metrics = compute_metric_all (metric_compute env) (metrics t),
                    t_model_init = None\<rparr>
     in pbind (lib (Trainer env trainer) (EvTrainerInit targs)) (\<lambda>_.
        pbind (lib (trainer_evaluate env trainer) EvEvaluate) (\<lambda>scores.
        let result = dict_copy scores
        in pbind (lift (from_lib (json_dumps env (Some 4) result))) (\<lambda>_.
           pbind export_file (\<lambda>path.
           pbind (write_json env path result) (\<lambda>_.
           ret result))))))))"

definition evaluate ::
  "('m, 'd) env \<Rightarrow> evaluate_args \<Rightarrow> (('m, 'd) trainer \<times> sys, (string, pyval) dict) prog" where
  "evaluate env a =
     pbind (evaluate_load_model env a) (\<lambda>(d, m). evaluate_report env d m)"

subsection \<open>\<^verbatim>\<open>push_to_hub\<close> (lines 219 to 262)\<close>

record push_args =
  hf_organization :: string
  model_alias :: string
  p_split_train :: "string option"
  p_split_validation :: "string option"
  p_split_test :: "string option"
  p_dataset_name :: "string option"
  p_dataset_type :: "string option"
  p_output_dir :: "string option"

definition git_command :: "string \<Rightarrow> string" where
  "git_command alias =
     ''cd '' @ alias @
     '' && git lfs install && git add . && git commit -m 'model update' && git push && cd ../''"

definition push_to_hub :: "('m, 'd) env \<Rightarrow> push_args \<Rightarrow> (('m, 'd) trainer \<times> sys, unit) prog" where
  "push_to_hub env a =
     pbind (set_if_given (p_dataset_name a) (\<lambda>v t. t\<lparr>dataset_name := v\<rparr>)) (\<lambda>_.
     pbind (set_if_given (p_dataset_type a) (\<lambda>v t. t\<lparr>dataset_type := v\<rparr>)) (\<lambda>_.
     pbind (set_if_given (p_output_dir a) (\<lambda>v t. t\<lparr>output_dir := v\<rparr>)) (\<lambda>_.
     pbind (assert_output_dir ''output_dir should be specified.'') (\<lambda>_.
     pbind (set_if_given (p_split_train a) (\<lambda>v t. t\<lparr>split_train := v\<rparr>)) (\<lambda>_.
     pbind (set_if_given (p_split_validation a) (\<lambda>v t. t\<lparr>split_validation := v\<rparr>)) (\<lambda>_.
     pbind (set_if_given (p_split_test a) (\<lambda>v t. t\<lparr>split_test := v\<rparr>)) (\<lambda>_.
     pbind (lib (create_repo env (model_alias a) (hf_organization a))
                (EvCreateRepo (model_alias a) (hf_organization a))) (\<lambda>url.
     pbind export_file (\<lambda>metric_file.
     pbind get_self (\<lambda>t.
     pbind (lib (get_readme env
                   \<lparr>r_model_name = hf_organization a @ ''/'' @ model_alias a,
                    r_metric_file = metric_file,
                    r_dataset_name = dataset_name t, r_dataset_type = dataset_type t,
                    r_language_model = language_model t,
                    r_split_test = split_test t,
                    r_split_validation = split_validation t,
                    r_split_train = split_train t\<rparr>) EvGetReadme) (\<lambda>readme.
     pbind (write_file (model_alias a @ ''/README.md'') readme) (\<lambda>_.
     pbind get_fs (\<lambda>w.
     pbind (if path_exists w (best_run_hyperparameters_path t)
            then pbind (lift (pj (Some (model_alias a)) ''best_run_hyperparameters.json'')) (\<lambda>dst.
                 os_call (copy2 (best_run_hyperparameters_path t) dst)
                         (EvCopy (best_run_hyperparameters_path t) dst))
            else ret ()) (\<lambda>_.
     pbind (system (os_system env) (git_command (model_alias a))) (\<lambda>_.
     ret ())))))))))))))))"

section \<open>Mocked collaborators\<close>

text \<open>
  A small set of collaborators for running the model on concrete inputs. A model is the
  name it was loaded from; a split is the logits the model produces on it, with its
  labels. The training engine calls \<^verbatim>\<open>compute_metrics\<close> on the evaluation split and
  returns what it returns. The metric library scores 1 when predictions and references
  agree and 0 otherwise. The JSON codec knows a fixed corpus of documents.
\<close>

type_synonym toy_split = "real list list \<times> label_array"

definition toy_documents :: "((string, pyval) dict \<times> string) list" where
  "toy_documents =
     [([(''f1'', PFloat 1), (''f1_macro'', PFloat 1), (''accuracy'', PFloat 1)],
       ''{f1: 1.0, f1_macro: 1.0, accuracy: 1.0}''),
      ([(''eval_loss'', PFloat 0.5), (''eval_f1'', PFloat 1), (''eval_f1_macro'', PFloat 1),
        (''eval_accuracy'', PFloat 1)],
       ''{eval_loss: 0.5, eval_f1: 1.0, eval_f1_macro: 1.0, eval_accuracy: 1.0}''),
      ([(''eval_loss'', PNaN), (''eval_f1'', PFloat 1), (''eval_f1_macro'', PFloat 1),
        (''eval_accuracy'', PFloat 1)],
       ''{eval_loss: NaN, eval_f1: 1.0, eval_f1_macro: 1.0, eval_accuracy: 1.0}''),
      ([(''learning_rate'', PFloat (1 / 1000000)), (''num_train_epochs'', PInt 1),
        (''per_device_train_batch_size'', PInt 4)],
       ''{learning_rate: 1e-06, num_train_epochs: 1, per_device_train_batch_size: 4}'')]"

definition toy_json_dumps :: "int option \<Rightarrow> (string, pyval) dict \<Rightarrow> string lib_result" where
  "toy_json_dumps indent d =
     (case map_of toy_documents d of
        None \<Rightarrow> Inl ''Object is not JSON serializable''
      | Some txt \<Rightarrow> Inr txt)"

definition toy_json_loads :: "string \<Rightarrow> (string, pyval) dict lib_result" where
  "toy_json_loads txt =
     (case map_of (map (\<lambda>(d, t). (t, d)) toy_documents) txt of
        None \<Rightarrow> Inl ''JSONDecodeError''
      | Some d \<Rightarrow> Inr d)"

definition toy_search ::
  "(string, toy_split) hf_trainer \<Rightarrow> search_space \<Rightarrow> string \<Rightarrow> int \<Rightarrow> (string, int) dict
     \<Rightarrow> world \<Rightarrow> best_run lib_result \<times> world" where
  "toy_search trainer sp local_dir n_trials resources w =
     (case (num_train_epochs sp, per_device_train_batch_size sp) of
        (e # _, b # _) \<Rightarrow>
          (Inr \<lparr>run_id = ''0'',
                hyperparameters =
                  [(''learning_rate'', PFloat (fst (learning_rate sp))),
                   (''num_train_epochs'', PInt e),
                   (''per_device_train_batch_size'', PInt b)]\<rparr>, w)
      | _ \<Rightarrow> (Inl ''empty search space'', w))"

definition toy_trainer_evaluate ::
  "(string, toy_split) hf_trainer \<Rightarrow> world \<Rightarrow> (string, pyval) dict lib_result \<times> world" where
  "toy_trainer_evaluate trainer w =
     (case t_eval_dataset trainer of
        None \<Rightarrow> (Inl ''no evaluation dataset'', w)
      | Some ds \<Rightarrow>
          (case t_compute_metrics trainer ds of
             Inl e \<Rightarrow> (Inl ''compute_metrics raised'', w)
           | Inr m \<Rightarrow> (Inr m, w)))"

definition toy_env :: "(string, toy_split) env" where
  "toy_env =
     \<lparr>load_model = (\<lambda>mode name auth cfg w. (Inr name, w)),
      dataset_map = (\<lambda>m n ds w. (Inr ds, w)),
      load_metric = (\<lambda>name cfg w. (Inr \<lparr>metric_name = name, metric_config = cfg\<rparr>, w)),
      metric_compute = (\<lambda>m p r avg. Inr [(metric_name m, PFloat (if p = r then 1 else 0))]),
      TrainingArguments = (\<lambda>kw. Inr kw),
      Trainer = (\<lambda>trainer w. (Inr (), w)),
      hyperparameter_search = toy_search,
      trainer_train = (\<lambda>trainer w. (Inr (t_model trainer @ ''+finetuned''), w)),
      save_model = (\<lambda>m path w. (Inr (), w\<lparr>dirs := insert path (dirs w)\<rparr>)),
      trainer_evaluate = toy_trainer_evaluate,
      create_repo = (\<lambda>alias org w. (Inr (''https://huggingface.co/'' @ org @ ''/'' @ alias), w)),
      get_readme = (\<lambda>r w. (Inr (''# '' @ r_model_name r), w)),
      os_system = (\<lambda>cmd w. (0, w)),
      json_dumps = toy_json_dumps,
      json_loads = toy_json_loads,
      cpu_count = 4,
      cuda_device_count = 0\<rparr>"

text \<open>The same collaborators with a training engine that reports as the \<^verbatim>\<open>transformers\<close>
  library does: every metric name prefixed with \<^verbatim>\<open>eval_\<close>, after the loss.\<close>

definition prefixing_trainer_evaluate ::
  "(string, toy_split) hf_trainer \<Rightarrow> world \<Rightarrow> (string, pyval) dict lib_result \<times> world" where
  "prefixing_trainer_evaluate trainer w =
     (case toy_trainer_evaluate trainer w of
        (Inl e, w') \<Rightarrow> (Inl e, w')
      | (Inr m, w') \<Rightarrow>
          (Inr ((''eval_loss'', PFloat 0.5) # map (\<lambda>(k, v). (''eval_'' @ k, v)) m), w'))"

definition prefixing_env :: "(string, toy_split) env" where
  "prefixing_env = toy_env\<lparr>trainer_evaluate := prefixing_trainer_evaluate\<rparr>"

text \<open>The same engine on a model that has diverged: the loss it reports is \<^verbatim>\<open>nan\<close>.\<close>

definition diverged_trainer_evaluate ::
  "(string, toy_split) hf_trainer \<Rightarrow> world \<Rightarrow> (string, pyval) dict lib_result \<times> world" where
  "diverged_trainer_evaluate trainer w =
     (case toy_trainer_evaluate trainer w of
        (Inl e, w') \<Rightarrow> (Inl e, w')
      | (Inr m, w') \<Rightarrow>
          (Inr ((''eval_loss'', PNaN) # map (\<lambda>(k, v). (''eval_'' @ k, v)) m), w'))"

definition diverged_env :: "(string, toy_split) env" where
  "diverged_env = toy_env\<lparr>trainer_evaluate := diverged_trainer_evaluate\<rparr>"

text \<open>The same collaborators with a shell whose command fails (exit status 1, reported by
  \<^verbatim>\<open>os.system\<close> as 256).\<close>

definition failing_shell_env :: "(string, toy_split) env" where
  "failing_shell_env = toy_env\<lparr>os_system := (\<lambda>cmd w. (256, w))\<rparr>"

definition toy_dataset :: "toy_split dataset_dict" where
  "toy_dataset =
     \<lparr>ds_dataset_name = None, ds_dataset_type = None,
      ds_splits =
        [(''train'', ([[2, 0, 1], [0, 1, 3]], ClassIds [0, 2])),
         (''validation'', ([[1, 0, 0]], ClassIds [0])),
         (''test'', ([[2, - 1, 1 / 2], [0, 1, 3]], ClassIds [0, 2]))]\<rparr>"

definition toy_init_args :: "toy_split init_args" where
  "toy_init_args =
     (init_defaults ''roberta-base'' toy_dataset [(''negative'', 0), (''neutral'', 1), (''positive'', 2)])
       \<lparr>i_split_test := Some ''test'', i_split_train := Some ''train'',
        i_split_validation := Some ''validation'', i_output_dir := Some ''out''\<rparr>"

definition toy_sys :: sys where
  "toy_sys = \<lparr>fs = \<lparr>files = Map.empty, dirs = {''out''}\<rparr>, trace = []\<rparr>"

text \<open>The object that \<^verbatim>\<open>__init__\<close> builds from \<open>toy_init_args\<close>.\<close>

definition toy_trainer :: "(string, toy_split) trainer" where
  "toy_trainer =
     \<lparr>dataset = toy_dataset, dataset_name = None, dataset_type = None,
      language_model = ''roberta-base'', use_auth_token = False, multi_label = False,
      output_dir = Some ''out'',
      model_config = \<lparr>label2id = [(''negative'', 0), (''neutral'', 1), (''positive'', 2)],
                      id2label = [(0, ''negative''), (1, ''neutral''), (2, ''positive'')],
                      problem_type = None\<rparr>,
      model = ''roberta-base'', max_length = 128,
      tokenized_datasets = ds_splits toy_dataset,
      metrics = \<lparr>mf_multi_label = False,
                 metric_accuracy = \<lparr>metric_name = ''accuracy'', metric_config = None\<rparr>,
                 metric_f1 = \<lparr>metric_name = ''f1'', metric_config = None\<rparr>\<rparr>,
      best_model_path = ''out/best_model'',
      best_run_hyperparameters_path = ''out/best_run_hyperparameters.json'',
      split_test = Some ''test'', split_train = Some ''train'',
      split_validation = Some ''validation''\<rparr>"

definition toy_push_args :: push_args where
  "toy_push_args =
     \<lparr>hf_organization = ''cardiffnlp'', model_alias = ''toy-model'',
      p_split_train = None, p_split_validation = None, p_split_test = None,
      p_dataset_name = None, p_dataset_type = None, p_output_dir = None\<rparr>"

text \<open>A system in which the clone directory of the model exists.\<close>

definition toy_hub_sys :: sys where
  "toy_hub_sys = \<lparr>fs = \<lparr>files = Map.empty, dirs = {''out'', ''toy-model''}\<rparr>, trace = []\<rparr>"

text \<open>A system in which a best model was persisted under another output directory.\<close>

definition toy_moved_sys :: sys where
  "toy_moved_sys =
     \<lparr>fs = \<lparr>files = Map.empty, dirs = {''out'', ''new'', ''new/best_model''}\<rparr>, trace = []\<rparr>"

section \<open>Properties of programs\<close>

text \<open>What a program appends to the trace satisfies \<open>p\<close>, event by event, however it ends.\<close>

definition emits :: "(event \<Rightarrow> bool) \<Rightarrow> ('t \<times> sys, 'a) prog \<Rightarrow> bool" where
  "emits p m =
     (\<forall>s r s'. m s = (r, s') \<longrightarrow> (\<exists>evs. trace (snd s') = trace (snd s) @ evs \<and> list_all p evs))"

text \<open>A program keeps a property of the object and never ends with an error in \<open>E\<close>.\<close>

definition keeps :: "('t \<Rightarrow> bool) \<Rightarrow> error set \<Rightarrow> ('t \<times> sys, 'a) prog \<Rightarrow> bool" where
  "keeps I E m =
     (\<forall>s r s'. I (fst s) \<longrightarrow> m s = (r, s') \<longrightarrow> I (fst s') \<and> (\<forall>e \<in> E. r \<noteq> Inl e))"

definition is_search :: "event \<Rightarrow> bool" where
  "is_search ev = (case ev of EvHyperparameterSearch sp d n \<Rightarrow> True | _ \<Rightarrow> False)"

definition is_system :: "event \<Rightarrow> bool" where
  "is_system ev = (case ev of EvSystem cmd status \<Rightarrow> True | _ \<Rightarrow> False)"

definition is_load :: "event \<Rightarrow> bool" where
  "is_load ev = (case ev of EvLoadModel src \<Rightarrow> True | _ \<Rightarrow> False)"

text \<open>When the program ends with an exception, what it appended to the trace satisfies \<open>p\<close>.\<close>

definition emits_unless_ok :: "(event \<Rightarrow> bool) \<Rightarrow> ('t \<times> sys, 'a) prog \<Rightarrow> bool" where
  "emits_unless_ok p m =
     (\<forall>s r s'. m s = (r, s') \<longrightarrow>
        (\<exists>evs. trace (snd s') = trace (snd s) @ evs \<and> (isl r \<longrightarrow> list_all p evs)))"

text \<open>The errors of the modelled operating-system calls, and the assertions of the source.\<close>

definition os_errors :: "error set" where
  "os_errors = {FileNotFoundError, FileExistsError, IsADirectoryError, NotADirectoryError}"

definition output_dir_assertions :: "error set" where
  "output_dir_assertions =
     {AssertionError ''output_dir should be specified.'', AssertionError ''output_dir is not defined''}"

definition search_range_assertions :: "error set" where
  "search_range_assertions =
     {AssertionError ''len(search_range_lr) should be 2'',
      AssertionError ''len(search_range_epoch) should be 2''}"

section \<open>Dictionaries\<close>

lemma setitem_fresh: "k \<notin> fst ` set d \<Longrightarrow> setitem k v d = d @ [(k, v)]"
  unfolding setitem_def by (induction d) auto

lemma map_of_setitem: "map_of (setitem k v d) = (map_of d)(k \<mapsto> v)"
  by (simp add: setitem_def update_conv')

lemma fold_invert:
  assumes "distinct (map snd d)" and "snd ` set d \<inter> fst ` set acc = {}"
  shows "fold (\<lambda>(k, v) acc. setitem v k acc) d acc = acc @ map (\<lambda>(k, v). (v, k)) d"
  using assms
proof (induction d arbitrary: acc)
  case Nil
  then show ?case by simp
next
  case (Cons p d)
  obtain k v where p: "p = (k, v)" by (cases p)
  from Cons.prems p have fresh: "v \<notin> fst ` set acc" by auto
  have "snd ` set d \<inter> fst ` set (acc @ [(v, k)]) = {}"
    using Cons.prems p by auto
  with Cons.IH [of "acc @ [(v, k)]"] Cons.prems p fresh show ?case
    by (simp add: setitem_fresh)
qed

lemma invert_dict_distinct:
  "distinct (map snd d) \<Longrightarrow> invert_dict d = map (\<lambda>(k, v). (v, k)) d"
  using fold_invert [of d "[]"] by (simp add: invert_dict_def)

lemma map_of_fold_setitem:
  "map_of (fold (\<lambda>(k, v) acc. setitem k v acc) d acc) = map_of acc ++ map_of (rev d)"
proof (induction d arbitrary: acc)
  case Nil
  then show ?case by simp
next
  case (Cons p d)
  obtain k v where p: "p = (k, v)" by (cases p)
  show ?case
    by (simp add: p Cons.IH map_of_setitem map_add_upd_left) (auto simp: map_add_def fun_eq_iff split: option.splits)
qed

lemma map_of_rev_distinct: "distinct (map fst d) \<Longrightarrow> map_of (rev d) = map_of d"
  by (rule map_of_inject_set [THEN iffD2]) (simp_all add: rev_map [symmetric])

lemma map_of_dict_copy: "map_of (dict_copy d) = map_of (rev d)"
  by (simp add: dict_copy_def map_of_fold_setitem)







section \<open>Predictions\<close>

lemma sigmoid_above_half:
  "- j \<le> o_threshold \<Longrightarrow> sigmoid j = Inr p \<Longrightarrow> p > 0.5 \<longleftrightarrow> j > 0"
proof -
  assume a: "- j \<le> o_threshold" and b: "sigmoid j = Inr p"
  from a b have p: "p = 1 / (1 + exp (- j))"
    by (auto simp: sigmoid_def math_exp_def)
  have pos: "0 < 1 + exp (- j)" by (simp add: add_pos_pos)
  have "p > 1 / 2 \<longleftrightarrow> exp (- j) < 1"
    unfolding p using pos by (simp add: field_simps)
  also have "\<dots> \<longleftrightarrow> j > 0" by simp
  finally show ?thesis by simp
qed

lemma threshold_in_range:
  "- j \<le> o_threshold \<Longrightarrow> threshold j = Inr (if j > 0 then 1 else 0)"
  using sigmoid_above_half [of j "1 / (1 + exp (- j))"]
  by (auto simp: threshold_def sigmoid_def math_exp_def)

lemma threshold_overflow: "- j > o_threshold \<Longrightarrow> threshold j = Inl OverflowError"
  by (simp add: threshold_def sigmoid_def math_exp_def)

lemma map_result_all_Inr:
  "(\<And>x. x \<in> set xs \<Longrightarrow> f x = Inr (g x)) \<Longrightarrow> map_result f xs = Inr (map g xs)"
  by (induction xs) auto

lemma predict_multi_label_in_range:
  assumes "\<And>row j. row \<in> set logits \<Longrightarrow> j \<in> set row \<Longrightarrow> - j \<le> o_threshold"
  shows "predict True logits = Inr (MultiHot (map (map (\<lambda>j. if j > 0 then 1 else 0)) logits))"
proof -
  have "map_result (map_result threshold) logits = Inr (map (map (\<lambda>j. if j > 0 then 1 else 0)) logits)"
    by (rule map_result_all_Inr, rule map_result_all_Inr) (simp add: threshold_in_range assms)
  then show ?thesis by (simp add: predict_def)
qed

lemma argmax_from_props:
  assumes "bi < i" and "length pre = i" and "pre ! bi = bv" and "\<forall>y \<in> set pre. y \<le> bv"
    and "\<forall>k < bi. pre ! k < bv"
  shows "argmax_from bi bv i xs < i + length xs \<and>
         (pre @ xs) ! argmax_from bi bv i xs = Max (set (pre @ xs)) \<and>
         (\<forall>k < argmax_from bi bv i xs. (pre @ xs) ! k < (pre @ xs) ! argmax_from bi bv i xs)"
  using assms
proof (induction xs arbitrary: bi bv i pre)
  case Nil
  have "bv \<in> set pre" using Nil by (metis nth_mem)
  then have "Max (set pre) = bv" using Nil by (intro Max_eqI) auto
  with Nil show ?case by simp
next
  case (Cons x xs)
  have eq: "(pre @ [x]) @ xs = pre @ x # xs" by simp
  show ?case
  proof (cases "x > bv")
    case True
    have 1: "i < Suc i" by simp
    have 2: "length (pre @ [x]) = Suc i" using Cons.prems by simp
    have 3: "(pre @ [x]) ! i = x" using Cons.prems by (simp add: nth_append)
    have 4: "\<forall>y \<in> set (pre @ [x]). y \<le> x" using Cons.prems True by fastforce
    have 5: "\<forall>k < i. (pre @ [x]) ! k < x"
    proof (intro allI impI)
      fix k assume "k < i"
      then have "(pre @ [x]) ! k = pre ! k" and "pre ! k \<in> set pre"
        using Cons.prems by (simp_all add: nth_append)
      then show "(pre @ [x]) ! k < x" using Cons.prems True by fastforce
    qed
    from Cons.IH [OF 1 2 3 4 5] True show ?thesis
      unfolding eq by auto
  next
    case False
    have 1: "bi < Suc i" using Cons.prems by simp
    have 2: "length (pre @ [x]) = Suc i" using Cons.prems by simp
    have 3: "(pre @ [x]) ! bi = bv" using Cons.prems by (simp add: nth_append)
    have 4: "\<forall>y \<in> set (pre @ [x]). y \<le> bv" using Cons.prems False by auto
    have 5: "\<forall>k < bi. (pre @ [x]) ! k < bv" using Cons.prems by (simp add: nth_append)
    from Cons.IH [OF 1 2 3 4 5] False show ?thesis
      unfolding eq by auto
  qed
qed

lemma argmax_first_maximum:
  assumes "argmax row = Inr i"
  shows "i < length row \<and> row ! i = Max (set row) \<and> (\<forall>k < i. row ! k < row ! i)"
proof (cases row)
  case Nil
  with assms show ?thesis by (simp add: argmax_def)
next
  case (Cons x xs)
  with assms have i: "i = argmax_from 0 x 1 xs" by (simp add: argmax_def)
  have "argmax_from 0 x 1 xs < 1 + length xs \<and>
        ([x] @ xs) ! argmax_from 0 x 1 xs = Max (set ([x] @ xs)) \<and>
        (\<forall>k < argmax_from 0 x 1 xs. ([x] @ xs) ! k < ([x] @ xs) ! argmax_from 0 x 1 xs)"
    by (rule argmax_from_props) simp_all
  then show ?thesis unfolding i Cons by auto
qed


lemma py_range_upto: "py_range lo hi = [lo..hi - 1]"
proof (induction lo hi rule: py_range.induct)
  case (1 lo hi)
  show ?case
  proof (cases "lo < hi")
    case True
    with "1" have "py_range lo hi = lo # [lo + 1..hi - 1]"
      by (subst py_range.simps) simp
    also from True have "\<dots> = [lo..hi - 1]" by (simp add: upto_rec1)
    finally show ?thesis .
  next
    case False
    then show ?thesis by (subst py_range.simps) simp
  qed
qed

lemma define_search_space_Inr:
  assumes "define_search_space a = Inr sp"
  shows "\<exists>lo hi. (case tr_search_range_epoch a of None \<Rightarrow> [1, 6] | Some r \<Rightarrow> r) = [lo, hi] \<and>
           num_train_epochs sp = [lo..hi - 1]"
proof -
  let ?ep = "case tr_search_range_epoch a of None \<Rightarrow> [1, 6] | Some r \<Rightarrow> r"
  from assms have len: "length ?ep = 2" and sp: "num_train_epochs sp = py_range (?ep ! 0) (?ep ! 1)"
    by (auto simp: define_search_space_def Let_def split: if_splits)
  from len obtain lo hi where "?ep = [lo, hi]"
    by (cases ?ep; cases "tl ?ep") auto
  with sp show ?thesis by (simp add: py_range_upto)
qed

section \<open>Running programs\<close>

lemma pbind_InrE:
  assumes "pbind m f s = (Inr y, s')"
  obtains x s1 where "m s = (Inr x, s1)" and "f x s1 = (Inr y, s')"
  using assms by (auto simp: pbind_def split: prod.splits sum.splits)

lemma pbind_cases:
  assumes "pbind m f s = (r, s')"
  obtains (fail) e where "m s = (Inl e, s')" and "r = Inl e"
        | (run) x s1 where "m s = (Inr x, s1)" and "f x s1 = (r, s')"
  using assms by (auto simp: pbind_def split: prod.splits sum.splits)

lemma ret_run [simp]: "ret x st = (Inr x, st)"
  by (simp add: ret_def)

lemma raise_run [simp]: "raise e st = (Inl e, st)"
  by (simp add: raise_def)

lemma lift_run [simp]: "lift r st = (r, st)"
  by (simp add: lift_def)

lemma get_self_run [simp]: "get_self st = (Inr (fst st), st)"
  by (simp add: get_self_def split: prod.splits)

lemma get_fs_run [simp]: "get_fs st = (Inr (fs (snd st)), st)"
  by (simp add: get_fs_def split: prod.splits)

lemma modify_self_run [simp]: "modify_self f st = (Inr (), (f (fst st), snd st))"
  by (simp add: modify_self_def split: prod.splits)

lemma set_if_given_run [simp]:
  "set_if_given x upd st =
     (Inr (), (case x of None \<Rightarrow> fst st | Some v \<Rightarrow> upd (Some v) (fst st), snd st))"
  by (simp add: set_if_given_def)

lemma assert_output_dir_run [simp]:
  "assert_output_dir msg st =
     (case output_dir (fst st) of
        None \<Rightarrow> (Inl (AssertionError msg), st)
      | Some d \<Rightarrow> (Inr d, st))"
  by (simp add: assert_output_dir_def pbind_def split: option.splits)

lemma export_file_run [simp]:
  "export_file st =
     (case output_dir (fst st) of
        None \<Rightarrow> (Inl (AssertionError ''output_dir is not defined''), st)
      | Some d \<Rightarrow> (Inr (d @ ''/metric.json''), st))"
  by (simp add: export_file_def pbind_def split: option.splits)

lemma os_call_run:
  "os_call f ev st =
     (fst (f (fs (snd st))),
      (fst st, \<lparr>fs = snd (f (fs (snd st))), trace = trace (snd st) @ [ev]\<rparr>))"
  by (simp add: os_call_def split: prod.splits)

lemma lib_run:
  "lib f ev st =
     (from_lib (fst (f (fs (snd st)))),
      (fst st, \<lparr>fs = snd (f (fs (snd st))), trace = trace (snd st) @ [ev]\<rparr>))"
  by (simp add: lib_def os_call_def split: prod.splits)

lemma system_run:
  "system os cmd st =
     (Inr (fst (os cmd (fs (snd st)))),
      (fst st, \<lparr>fs = snd (os cmd (fs (snd st))),
                trace = trace (snd st) @ [EvSystem cmd (fst (os cmd (fs (snd st))))]\<rparr>))"
  by (simp add: system_def split: prod.splits)

lemma from_lib_Inr [simp]: "from_lib r = Inr x \<longleftrightarrow> r = Inr x"
  by (simp add: from_lib_def split: sum.splits)

lemma from_lib_not_own [simp]:
  "from_lib r \<noteq> Inl (AssertionError msg)" "from_lib r \<noteq> Inl KeyError" "from_lib r \<noteq> Inl TypeError"
  by (simp_all add: from_lib_def split: sum.splits)

lemma os_call_InrE:
  assumes "os_call f ev st = (Inr x, st')"
  obtains w' where "f (fs (snd st)) = (Inr x, w')"
    and "st' = (fst st, \<lparr>fs = w', trace = trace (snd st) @ [ev]\<rparr>)"
  using assms by (auto simp: os_call_def split: prod.splits)

lemma lib_InrE:
  assumes "lib f ev st = (Inr x, st')"
  obtains w' where "f (fs (snd st)) = (Inr x, w')"
    and "st' = (fst st, \<lparr>fs = w', trace = trace (snd st) @ [ev]\<rparr>)"
  using assms by (auto simp: lib_def os_call_def from_lib_def split: prod.splits sum.splits)

lemma write_json_InrE:
  assumes "write_json env path obj st = (Inr u, st')"
  obtains body where "json_dumps env None obj = Inr body"
    and "st' = (fst st, \<lparr>fs = (fs (snd st))\<lparr>files := (files (fs (snd st)))(path \<mapsto> body)\<rparr>,
                      trace = trace (snd st) @ [EvOpen path, EvWrite path body]\<rparr>)"
  using assms
  by (auto simp: write_json_def pbind_def os_call_def open_w_def write_text_def
      split: prod.splits sum.splits if_splits)

section \<open>What successful runs did\<close>

lemma init_Inr:
  assumes "TrainerTextClassification_init env a st = (Inr t, st')"
  shows "\<exists>d. i_output_dir a = Some d \<and> output_dir t = Some d \<and>
             pj (Some d) ''best_model'' = Inr (best_model_path t) \<and>
             pj (Some d) ''best_run_hyperparameters.json'' = Inr (best_run_hyperparameters_path t) \<and>
             language_model t = i_language_model a \<and>
             label2id (model_config t) = i_label_to_id a \<and>
             id2label (model_config t) = invert_dict (i_label_to_id a)"
  using assms unfolding TrainerTextClassification_init_def get_metrics_def Let_def
  apply (elim pbind_InrE lib_InrE)
  apply (cases "i_output_dir a")
   apply (auto simp: pj_def)
  done




lemma train_Inr:
  assumes "train env a (t0, s0) = (Inr u, st')"
  shows "\<exists>d t1 targs train_ds eval_ds trainer sp best body m w0 w1 w2 w3 w4.
      t1 = (case tr_split_validation a of None \<Rightarrow> (\<lambda>t. t) | Some v \<Rightarrow> (\<lambda>t. t\<lparr>split_validation := Some v\<rparr>))
            ((case tr_split_train a of None \<Rightarrow> (\<lambda>t. t) | Some v \<Rightarrow> (\<lambda>t. t\<lparr>split_train := Some v\<rparr>))
            ((case tr_output_dir a of None \<Rightarrow> (\<lambda>t. t) | Some v \<Rightarrow> (\<lambda>t. t\<lparr>output_dir := Some v\<rparr>)) t0)) \<and>
      output_dir t1 = Some d \<and>
      makedirs d (fs s0) = (Inr (), w0) \<and>
      TrainingArguments env
        [(''output_dir'', PStr d), (''evaluation_strategy'', PStr ''steps''),
         (''eval_steps'', PInt (tr_eval_step a)), (''seed'', PInt (tr_random_seed a))] = Inr targs \<and>
      split_lookup (tokenized_datasets t1) (split_train t1) = Inr train_ds \<and>
      split_lookup (tokenized_datasets t1) (split_validation t1) = Inr eval_ds \<and>
      trainer = \<lparr>t_model = model t1, t_args = targs,
                 t_train_dataset = Some train_ds, t_eval_dataset = Some eval_ds,
                 t_compute_metrics = compute_metric_search (metric_compute env) (metrics t1),
                 t_model_init = Some (load_model env ReturnDict (language_model t1)
                                        (use_auth_token t1) (model_config t1))\<rparr> \<and>
      Trainer env trainer w0 = (Inr (), w1) \<and>
      define_search_space a = Inr sp \<and>
      hyperparameter_search env trainer sp (tr_ray_result_dir a) (tr_n_trials a)
        (resources_per_trial env (tr_parallel_cpu a)) w1 = (Inr best, w2) \<and>
      json_dumps env None (hyperparameters best) = Inr body \<and>
      trainer_train env (trainer\<lparr>t_args := apply_hyperparameters (hyperparameters best) targs\<rparr>)
        (w2\<lparr>files := (files w2)(best_run_hyperparameters_path t1 \<mapsto> body)\<rparr>) = (Inr m, w3) \<and>
      save_model env m (best_model_path t1) w3 = (Inr (), w4) \<and>
      st' = (t1, \<lparr>fs = w4,
                  trace = trace s0 @
                    [EvMakedirs d, EvTrainerInit targs,
                     EvHyperparameterSearch sp (tr_ray_result_dir a) (tr_n_trials a),
                     EvOpen (best_run_hyperparameters_path t1),
                     EvWrite (best_run_hyperparameters_path t1) body,
                     EvTrain (apply_hyperparameters (hyperparameters best) targs),
                     EvSaveModel (best_model_path t1)]\<rparr>)"
  using assms unfolding train_def train_setup_def train_search_finetune_def Let_def
  apply (elim pbind_InrE lib_InrE os_call_InrE write_json_InrE)
  apply (clarsimp split: option.splits)
  done

section \<open>What programs append to the trace\<close>

lemma emits_silent:
  assumes "\<And>s. snd (snd (m s)) = snd s"
  shows "emits p m"
  unfolding emits_def
proof (intro allI impI)
  fix s r s' assume "m s = (r, s')"
  with assms [of s] have "snd s' = snd s" by simp
  then show "\<exists>evs. trace (snd s') = trace (snd s) @ evs \<and> list_all p evs"
    by (intro exI [of _ "[]"]) simp
qed

lemma emits_ret [intro!]: "emits p (ret x)"
  by (rule emits_silent) simp

lemma emits_raise [intro!]: "emits p (raise e)"
  by (rule emits_silent) simp

lemma emits_lift [intro!]: "emits p (lift r)"
  by (rule emits_silent) simp

lemma emits_get_self [intro!]: "emits p get_self"
  by (rule emits_silent) simp

lemma emits_get_fs [intro!]: "emits p get_fs"
  by (rule emits_silent) simp

lemma emits_modify_self [intro!]: "emits p (modify_self f)"
  by (rule emits_silent) simp

lemma emits_set_if_given [intro!]: "emits p (set_if_given x upd)"
  by (rule emits_silent) simp

lemma emits_assert_output_dir [intro!]: "emits p (assert_output_dir msg)"
  by (rule emits_silent) (simp split: option.splits)

lemma emits_export_file [intro!]: "emits p export_file"
  by (rule emits_silent) (simp split: option.splits)

lemma emits_os_call: "p ev \<Longrightarrow> emits p (os_call f ev)"
  by (auto simp: emits_def os_call_run)

lemma emits_lib: "p ev \<Longrightarrow> emits p (lib f ev)"
  by (auto simp: emits_def lib_run)

lemma emits_system: "(\<And>status. p (EvSystem cmd status)) \<Longrightarrow> emits p (system os cmd)"
  by (auto simp: emits_def system_run)

lemma emits_extends:
  assumes "emits p m" and "m s = (r, s')"
  obtains evs where "trace (snd s') = trace (snd s) @ evs" and "list_all p evs"
  using assms unfolding emits_def by blast

lemma emitsD:
  assumes "emits p m" and "m s = (r, s')" and "trace (snd s') = trace (snd s) @ evs"
  shows "list_all p evs"
proof -
  from assms(1,2) obtain evs' where "trace (snd s') = trace (snd s) @ evs'" and "list_all p evs'"
    by (rule emits_extends)
  with assms(3) show ?thesis by simp
qed

lemma emits_unless_ok_extends:
  assumes "emits_unless_ok p m" and "m s = (r, s')"
  obtains evs where "trace (snd s') = trace (snd s) @ evs" and "isl r \<longrightarrow> list_all p evs"
  using assms unfolding emits_unless_ok_def by blast

lemma emits_pbind:
  assumes "emits p m" and "\<And>x s s1. m s = (Inr x, s1) \<Longrightarrow> emits p (f x)"
  shows "emits p (pbind m f)"
  unfolding emits_def
proof (intro allI impI)
  fix s r s' assume run: "pbind m f s = (r, s')"
  then show "\<exists>evs. trace (snd s') = trace (snd s) @ evs \<and> list_all p evs"
  proof (cases rule: pbind_cases)
    case (fail e)
    from assms(1) fail(1) show ?thesis by (rule emits_extends) blast
  next
    case (run x s1)
    from assms(1) run(1) obtain evs1 where 1: "trace (snd s1) = trace (snd s) @ evs1" "list_all p evs1"
      by (rule emits_extends)
    from assms(2) [OF run(1)] run(2) obtain evs2 where 2: "trace (snd s') = trace (snd s1) @ evs2" "list_all p evs2"
      by (rule emits_extends)
    from 1 2 show ?thesis by (intro exI [of _ "evs1 @ evs2"]) simp
  qed
qed

lemma emits_if: "emits p m1 \<Longrightarrow> emits p m2 \<Longrightarrow> emits p (if c then m1 else m2)"
  by simp

lemma emits_case_prod: "(\<And>a b. emits p (f a b)) \<Longrightarrow> emits p (case x of (a, b) \<Rightarrow> f a b)"
  by (cases x) simp

lemma emits_write_json:
  "p (EvOpen path) \<Longrightarrow> (\<And>body. p (EvWrite path body)) \<Longrightarrow> emits p (write_json env path obj)"
  unfolding write_json_def by (intro emits_pbind emits_os_call emits_lift)

lemma emits_write_file:
  "p (EvOpen path) \<Longrightarrow> p (EvWrite path body) \<Longrightarrow> emits p (write_file path body)"
  unfolding write_file_def by (intro emits_pbind emits_os_call)

lemmas emits_intros = emits_pbind emits_os_call emits_lib emits_system emits_if emits_case_prod
  emits_write_json emits_write_file emits_ret emits_raise emits_lift emits_get_self emits_get_fs
  emits_modify_self emits_set_if_given emits_assert_output_dir emits_export_file

lemma emits_train_setup: "emits (\<lambda>ev. \<not> is_search ev) (train_setup env a)"
  unfolding train_setup_def Let_def
  by (intro emits_intros) (simp_all add: is_search_def)

lemma emits_train_search_finetune:
  "emits (\<lambda>ev. \<forall>sp' d n. ev = EvHyperparameterSearch sp' d n \<longrightarrow> sp' = sp)
     (train_search_finetune env a trainer sp)"
  unfolding train_search_finetune_def Let_def
  by (intro emits_intros) simp_all

lemma emits_evaluate_report: "emits (\<lambda>ev. \<not> is_load ev) (evaluate_report env d m)"
  unfolding evaluate_report_def Let_def
  by (intro emits_intros) (simp_all add: is_load_def)

section \<open>What failing programs append to the trace\<close>

lemma emits_unless_ok_pbind:
  assumes "emits p m" and "\<And>x. emits_unless_ok p (f x)"
  shows "emits_unless_ok p (pbind m f)"
  unfolding emits_unless_ok_def
proof (intro allI impI)
  fix s r s' assume run: "pbind m f s = (r, s')"
  then show "\<exists>evs. trace (snd s') = trace (snd s) @ evs \<and> (isl r \<longrightarrow> list_all p evs)"
  proof (cases rule: pbind_cases)
    case (fail e)
    from assms(1) fail(1) show ?thesis by (rule emits_extends) blast
  next
    case (run x s1)
    from assms(1) run(1) obtain evs1 where 1: "trace (snd s1) = trace (snd s) @ evs1" "list_all p evs1"
      by (rule emits_extends)
    from assms(2) [of x] run(2) obtain evs2 where 2: "trace (snd s') = trace (snd s1) @ evs2" "isl r \<longrightarrow> list_all p evs2"
      by (rule emits_unless_ok_extends)
    from 1 2 show ?thesis by (intro exI [of _ "evs1 @ evs2"]) simp
  qed
qed

lemma emits_unless_ok_system: "emits_unless_ok p (pbind (system os cmd) (\<lambda>_. ret ()))"
  by (auto simp: emits_unless_ok_def pbind_def system_run)

lemma push_to_hub_fails_before_shell:
  "emits_unless_ok (\<lambda>ev. \<not> is_system ev) (push_to_hub env a)"
  unfolding push_to_hub_def
  by (intro emits_unless_ok_pbind emits_unless_ok_system emits_intros) (simp_all add: is_system_def)

section \<open>Invariants of the object, errors that never occur\<close>

lemma keepsI:
  assumes "\<And>s r s'. I (fst s) \<Longrightarrow> m s = (r, s') \<Longrightarrow> I (fst s') \<and> (\<forall>e \<in> E. r \<noteq> Inl e)"
  shows "keeps I E m"
  using assms unfolding keeps_def by blast

lemma keepsD:
  assumes "keeps I E m" and "I (fst s)" and "m s = (r, s')"
  shows "I (fst s') \<and> (\<forall>e \<in> E. r \<noteq> Inl e)"
  using assms unfolding keeps_def by blast

lemma keeps_ret: "keeps I E (ret x)"
  by (rule keepsI) auto

lemma keeps_lift: "(\<And>e. e \<in> E \<Longrightarrow> r \<noteq> Inl e) \<Longrightarrow> keeps I E (lift r)"
  by (rule keepsI) auto

lemma keeps_get_self: "keeps I E get_self"
  by (rule keepsI) auto

lemma keeps_get_fs: "keeps I E get_fs"
  by (rule keepsI) auto

lemma keeps_modify_self: "(\<And>t. I t \<Longrightarrow> I (f t)) \<Longrightarrow> keeps I E (modify_self f)"
  by (rule keepsI) auto

lemma keeps_set_if_given: "(\<And>v t. I t \<Longrightarrow> I (upd (Some v) t)) \<Longrightarrow> keeps I E (set_if_given x upd)"
  by (rule keepsI) (auto split: option.splits)

lemma keeps_os_call: "(\<And>w e. e \<in> E \<Longrightarrow> fst (f w) \<noteq> Inl e) \<Longrightarrow> keeps I E (os_call f ev)"
  by (rule keepsI) (auto simp: os_call_run)

lemma keeps_lib: "(\<And>msg. LibraryError msg \<notin> E) \<Longrightarrow> keeps I E (lib f ev)"
  by (rule keepsI) (auto simp: lib_run from_lib_def split: sum.splits)

lemma keeps_system: "keeps I E (system os cmd)"
  by (rule keepsI) (auto simp: system_run)

lemma keeps_assert_set:
  assumes "\<And>t. I t \<Longrightarrow> output_dir t \<noteq> None"
  shows "keeps I E (assert_output_dir msg)"
proof (rule keepsI)
  fix s r s' assume "I (fst s)" and run: "assert_output_dir msg s = (r, s')"
  with assms obtain d where "output_dir (fst s) = Some d" by blast
  with run \<open>I (fst s)\<close> show "I (fst s') \<and> (\<forall>e \<in> E. r \<noteq> Inl e)" by auto
qed

lemma keeps_assert_other: "AssertionError msg \<notin> E \<Longrightarrow> keeps I E (assert_output_dir msg)"
  by (rule keepsI) (auto split: option.splits)

lemma keeps_export_file_set:
  assumes "\<And>t. I t \<Longrightarrow> output_dir t \<noteq> None"
  shows "keeps I E export_file"
proof (rule keepsI)
  fix s r s' assume "I (fst s)" and run: "export_file s = (r, s')"
  with assms obtain d where "output_dir (fst s) = Some d" by blast
  with run \<open>I (fst s)\<close> show "I (fst s') \<and> (\<forall>e \<in> E. r \<noteq> Inl e)" by auto
qed

lemma keeps_export_file_other: "AssertionError ''output_dir is not defined'' \<notin> E \<Longrightarrow> keeps I E export_file"
  by (rule keepsI) (auto split: option.splits)

lemma keeps_pbind:
  assumes "keeps I E m" and "\<And>x. keeps I E (f x)"
  shows "keeps I E (pbind m f)"
proof (rule keepsI)
  fix s r s' assume I: "I (fst s)" and run: "pbind m f s = (r, s')"
  from run show "I (fst s') \<and> (\<forall>e \<in> E. r \<noteq> Inl e)"
  proof (cases rule: pbind_cases)
    case (fail e)
    with keepsD [OF assms(1) I fail(1)] show ?thesis by simp
  next
    case (run x s1)
    from keepsD [OF assms(1) I run(1)] have "I (fst s1)" by simp
    from keepsD [OF assms(2) this run(2)] show ?thesis .
  qed
qed

lemma keeps_if: "keeps I E m1 \<Longrightarrow> keeps I E m2 \<Longrightarrow> keeps I E (if c then m1 else m2)"
  by simp

lemma keeps_case_prod: "(\<And>a b. keeps I E (f a b)) \<Longrightarrow> keeps I E (case x of (a, b) \<Rightarrow> f a b)"
  by (cases x) simp

lemma makedirs_errors: "fst (makedirs d w) = Inl e \<Longrightarrow> e \<in> os_errors"
  by (auto simp: makedirs_def os_errors_def split: if_splits)

lemma open_w_errors: "fst (open_w p w) = Inl e \<Longrightarrow> e \<in> os_errors"
  by (auto simp: open_w_def os_errors_def split: if_splits)

lemma write_text_ok: "fst (write_text p body w) = Inr ()"
  by (simp add: write_text_def)

lemma copy2_errors: "fst (copy2 src dst w) = Inl e \<Longrightarrow> e \<in> os_errors"
  using open_w_errors [of dst w e]
  by (auto simp: copy2_def write_text_def os_errors_def split: option.splits prod.splits sum.splits if_splits)

lemma keeps_makedirs: "E \<inter> os_errors = {} \<Longrightarrow> keeps I E (os_call (makedirs d) ev)"
  using makedirs_errors by (intro keeps_os_call) blast

lemma keeps_open_w: "E \<inter> os_errors = {} \<Longrightarrow> keeps I E (os_call (open_w p) ev)"
  using open_w_errors by (intro keeps_os_call) blast

lemma keeps_write_text: "keeps I E (os_call (write_text p body) ev)"
  by (intro keeps_os_call) (simp add: write_text_ok)

lemma keeps_copy2: "E \<inter> os_errors = {} \<Longrightarrow> keeps I E (os_call (copy2 src dst) ev)"
  using copy2_errors by (intro keeps_os_call) blast

lemma keeps_lift_from_lib: "(\<And>msg. LibraryError msg \<notin> E) \<Longrightarrow> keeps I E (lift (from_lib r))"
  by (rule keeps_lift) (auto simp: from_lib_def split: sum.splits)

lemma keeps_lift_split_lookup: "KeyError \<notin> E \<Longrightarrow> keeps I E (lift (split_lookup ds sp))"
  by (rule keeps_lift) (auto simp: split_lookup_def getitem_def split: option.splits)

lemma keeps_lift_pj: "keeps I E (lift (pj (Some p) b))"
  by (rule keeps_lift) (auto simp: pj_def)

lemma keeps_write_json:
  "E \<inter> os_errors = {} \<Longrightarrow> (\<And>msg. LibraryError msg \<notin> E) \<Longrightarrow> keeps I E (write_json env path obj)"
  unfolding write_json_def
  by (intro keeps_pbind keeps_open_w keeps_write_text keeps_lift_from_lib)

lemma keeps_write_file: "E \<inter> os_errors = {} \<Longrightarrow> keeps I E (write_file path body)"
  unfolding write_file_def by (intro keeps_pbind keeps_open_w keeps_write_text)

lemma define_search_space_errors:
  "define_search_space a = Inl e \<Longrightarrow> e \<in> search_range_assertions"
  by (auto simp: define_search_space_def search_range_assertions_def Let_def split: if_splits)

lemma keeps_define_search_space:
  "E \<inter> search_range_assertions = {} \<Longrightarrow> keeps I E (lift (define_search_space a))"
  using define_search_space_errors by (intro keeps_lift) blast

lemma keeps_define_search_space_ok:
  "define_search_space a = Inr sp \<Longrightarrow> keeps I E (lift (define_search_space a))"
  by (intro keeps_lift) simp

lemmas keeps_steps = keeps_pbind keeps_ret keeps_get_self keeps_get_fs keeps_system keeps_if
  keeps_case_prod keeps_lib keeps_makedirs keeps_open_w keeps_write_text keeps_copy2 keeps_write_json
  keeps_write_file keeps_lift_from_lib keeps_lift_split_lookup keeps_lift_pj

lemma output_dir_set_train:
  "keeps (\<lambda>t. output_dir t \<noteq> None) output_dir_assertions (train env a)"
  unfolding train_def train_setup_def train_search_finetune_def Let_def
  by (intro keeps_steps keeps_set_if_given keeps_assert_set keeps_define_search_space)
     (auto simp: output_dir_assertions_def os_errors_def search_range_assertions_def)

lemma output_dir_set_evaluate:
  "keeps (\<lambda>t. output_dir t \<noteq> None) output_dir_assertions (evaluate env a)"
  unfolding evaluate_def evaluate_load_model_def evaluate_report_def Let_def
  by (intro keeps_steps keeps_set_if_given keeps_modify_self keeps_assert_set keeps_export_file_set)
     (auto simp: output_dir_assertions_def os_errors_def)

lemma output_dir_set_push_to_hub:
  "keeps (\<lambda>t. output_dir t \<noteq> None) output_dir_assertions (push_to_hub env a)"
  unfolding push_to_hub_def
  by (intro keeps_steps keeps_set_if_given keeps_assert_set keeps_export_file_set)
     (auto simp: output_dir_assertions_def os_errors_def)

lemma search_range_ok_train:
  assumes "define_search_space a = Inr sp"
  shows "keeps (\<lambda>t. True) search_range_assertions (train env a)"
  unfolding train_def train_setup_def train_search_finetune_def Let_def
  by (intro keeps_steps keeps_set_if_given keeps_assert_other keeps_define_search_space_ok [OF assms])
     (auto simp: search_range_assertions_def os_errors_def)

lemma paths_fixed_train:
  "keeps (\<lambda>t. best_model_path t = p \<and> best_run_hyperparameters_path t = q \<and> language_model t = l)
     {} (train env a)"
  unfolding train_def train_setup_def train_search_finetune_def Let_def
  by (intro keeps_steps keeps_set_if_given keeps_assert_other keeps_define_search_space) auto

lemma paths_fixed_evaluate:
  "keeps (\<lambda>t. best_model_path t = p \<and> best_run_hyperparameters_path t = q \<and> language_model t = l)
     {} (evaluate env a)"
  unfolding evaluate_def evaluate_load_model_def evaluate_report_def Let_def
  by (intro keeps_steps keeps_set_if_given keeps_modify_self keeps_assert_other
        keeps_export_file_other) auto

lemma paths_fixed_push_to_hub:
  "keeps (\<lambda>t. best_model_path t = p \<and> best_run_hyperparameters_path t = q \<and> language_model t = l)
     {} (push_to_hub env a)"
  unfolding push_to_hub_def
  by (intro keeps_steps keeps_set_if_given keeps_assert_other keeps_export_file_other) auto

lemmas toy_defs = toy_env_def toy_sys_def toy_trainer_def toy_dataset_def toy_json_dumps_def
  toy_json_loads_def toy_documents_def toy_search_def toy_trainer_evaluate_def
  toy_init_args_def init_defaults_def train_defaults_def toy_push_args_def toy_hub_sys_def
  toy_moved_sys_def prefixing_env_def prefixing_trainer_evaluate_def failing_shell_env_def
  diverged_env_def diverged_trainer_evaluate_def

lemmas run_defs = pbind_def lib_def os_call_def system_def write_json_def write_file_def Let_def
  from_lib_def path_exists_def split_lookup_def getitem_def dict_copy_def invert_dict_def
  setitem_def open_w_def write_text_def makedirs_def copy2_def dirname_def dir_exists_def
  path_prefixes_def pj_def predict_def argmax_def compute_metric_all_def compute_metric_search_def
  upto_rec1

lemma toy_init_run:
  "fst (TrainerTextClassification_init toy_env toy_init_args ((), toy_sys)) = Inr toy_trainer"
  by (simp add: TrainerTextClassification_init_def get_metrics_def toy_defs run_defs)

lemma toy_init_unset_run:
  "fst (TrainerTextClassification_init toy_env (toy_init_args\<lparr>i_output_dir := None\<rparr>) ((), toy_sys))
     = Inl TypeError"
  by (simp add: TrainerTextClassification_init_def get_metrics_def toy_defs run_defs)

lemma toy_init_duplicate_ids_run:
  "fst (TrainerTextClassification_init toy_env
          (toy_init_args\<lparr>i_label_to_id := [(''negative'', 0), (''positive'', 0)]\<rparr>) ((), toy_sys))
     = Inr (toy_trainer\<lparr>model_config :=
              \<lparr>label2id = [(''negative'', 0), (''positive'', 0)],
               id2label = [(0, ''positive'')], problem_type = None\<rparr>\<rparr>)"
  by (simp add: TrainerTextClassification_init_def get_metrics_def toy_defs run_defs)

lemma toy_evaluate_run:
  "evaluate toy_env \<lparr>ev_split_test = None, ev_output_dir = None\<rparr> (toy_trainer, toy_sys) =
     (Inr [(''f1'', PFloat 1), (''f1_macro'', PFloat 1), (''accuracy'', PFloat 1)],
      (toy_trainer,
       \<lparr>fs = \<lparr>files = [''out/metric.json'' \<mapsto> ''{f1: 1.0, f1_macro: 1.0, accuracy: 1.0}''],
               dirs = {''out''}\<rparr>,
        trace = [EvLoadModel ''roberta-base'',
                 EvTrainerInit [(''output_dir'', PStr ''out''), (''evaluation_strategy'', PStr ''no'')],
                 EvEvaluate, EvOpen ''out/metric.json'',
                 EvWrite ''out/metric.json'' ''{f1: 1.0, f1_macro: 1.0, accuracy: 1.0}'']\<rparr>))"
  by (simp add: evaluate_def evaluate_load_model_def evaluate_report_def toy_defs run_defs)



lemma moved_evaluate_run:
  "evaluate toy_env \<lparr>ev_split_test = None, ev_output_dir = Some ''new''\<rparr> (toy_trainer, toy_moved_sys) =
     (Inr [(''f1'', PFloat 1), (''f1_macro'', PFloat 1), (''accuracy'', PFloat 1)],
      (toy_trainer\<lparr>output_dir := Some ''new''\<rparr>,
       \<lparr>fs = \<lparr>files = [''new/metric.json'' \<mapsto> ''{f1: 1.0, f1_macro: 1.0, accuracy: 1.0}''],
               dirs = {''out'', ''new'', ''new/best_model''}\<rparr>,
        trace = [EvLoadModel ''roberta-base'',
                 EvTrainerInit [(''output_dir'', PStr ''new''), (''evaluation_strategy'', PStr ''no'')],
                 EvEvaluate, EvOpen ''new/metric.json'',
                 EvWrite ''new/metric.json'' ''{f1: 1.0, f1_macro: 1.0, accuracy: 1.0}'']\<rparr>))"
  by (simp add: evaluate_def evaluate_load_model_def evaluate_report_def toy_defs run_defs)

lemma toy_train_run:
  "fst (train toy_env train_defaults (toy_trainer, toy_sys)) = Inr () \<and>
   trace (snd (snd (train toy_env train_defaults (toy_trainer, toy_sys)))) =
     [EvMakedirs ''out'',
      EvTrainerInit [(''output_dir'', PStr ''out''), (''evaluation_strategy'', PStr ''steps''),
                     (''eval_steps'', PInt 100), (''seed'', PInt 42)],
      EvHyperparameterSearch
        \<lparr>learning_rate = (1 / 1000000, 1 / 10000), num_train_epochs = [1, 2, 3, 4, 5],
         per_device_train_batch_size = [4, 8, 16, 32, 64]\<rparr> ''ray_result'' 10,
      EvOpen ''out/best_run_hyperparameters.json'',
      EvWrite ''out/best_run_hyperparameters.json''
        ''{learning_rate: 1e-06, num_train_epochs: 1, per_device_train_batch_size: 4}'',
      EvTrain [(''output_dir'', PStr ''out''), (''evaluation_strategy'', PStr ''no''),
               (''eval_steps'', PInt 100), (''seed'', PInt 42),
               (''learning_rate'', PFloat (1 / 1000000)), (''num_train_epochs'', PInt 1),
               (''per_device_train_batch_size'', PInt 4)],
      EvSaveModel ''out/best_model'']"
  by (simp add: train_def train_setup_def train_search_finetune_def define_search_space_def
      py_range_upto resources_per_trial_def apply_hyperparameters_def toy_defs run_defs)

lemma toy_train_bad_range_run:
  "train toy_env (train_defaults\<lparr>tr_search_range_lr := Some [1 / 100000]\<rparr>) (toy_trainer, toy_sys) =
     (Inl (AssertionError ''len(search_range_lr) should be 2''),
      (toy_trainer,
       \<lparr>fs = fs toy_sys,
        trace = [EvMakedirs ''out'',
                 EvTrainerInit [(''output_dir'', PStr ''out''), (''evaluation_strategy'', PStr ''steps''),
                                (''eval_steps'', PInt 100), (''seed'', PInt 42)]]\<rparr>))"
  by (simp add: train_def train_setup_def train_search_finetune_def define_search_space_def
      py_range_upto resources_per_trial_def apply_hyperparameters_def toy_defs run_defs insert_absorb)

lemma toy_train_no_split_run:
  "fst (train toy_env (train_defaults\<lparr>tr_search_range_lr := Some [1 / 100000]\<rparr>)
         (toy_trainer\<lparr>split_train := None\<rparr>, toy_sys)) = Inl KeyError"
  by (simp add: train_def train_setup_def train_search_finetune_def define_search_space_def
      py_range_upto resources_per_trial_def apply_hyperparameters_def toy_defs run_defs)

lemma failing_shell_push_run:
  "fst (push_to_hub failing_shell_env toy_push_args (toy_trainer, toy_hub_sys)) = Inr () \<and>
   trace (snd (snd (push_to_hub failing_shell_env toy_push_args (toy_trainer, toy_hub_sys)))) =
     [EvCreateRepo ''toy-model'' ''cardiffnlp'', EvGetReadme,
      EvOpen ''toy-model/README.md'', EvWrite ''toy-model/README.md'' ''# cardiffnlp/toy-model'',
      EvSystem (git_command ''toy-model'') 256]"
  by (simp add: push_to_hub_def toy_defs run_defs)

lemma run_eq: "fst x = r \<Longrightarrow> x = (r, snd x)"
  by (simp add: prod_eq_iff)








lemma evaluate_load_model_outcomes:
  assumes "evaluate_load_model env a (t, s) = (r, st1)"
  shows "(r = Inl (AssertionError ''output_dir should be specified.'') \<and> trace (snd st1) = trace s) \<or>
         trace (snd st1) = trace s @
           [EvLoadModel (if path_exists (fs s) (best_model_path t) then best_model_path t
                         else language_model t)]"
  using assms unfolding evaluate_load_model_def Let_def
  by (auto simp: pbind_def lib_def os_call_def split: option.splits prod.splits sum.splits if_splits)

text \<open>
  C4, counterexample. The object was constructed with the output location \<^verbatim>\<open>out\<close>;
  \<^verbatim>\<open>evaluate(output_dir='new')\<close> makes \<^verbatim>\<open>new\<close> the output location, and
  \<^verbatim>\<open>new/best_model\<close> exists on disk, yet the model is loaded from the configured identifier.
\<close>

theorem best_model_path_counterexample:
  "output_dir (fst (snd (evaluate toy_env \<lparr>ev_split_test = None, ev_output_dir = Some ''new''\<rparr>
                           (toy_trainer, toy_moved_sys)))) = Some ''new'' \<and>
   pj (Some ''new'') ''best_model'' = Inr ''new/best_model'' \<and>
   path_exists (fs toy_moved_sys) ''new/best_model'' \<and>
   trace (snd (snd (evaluate toy_env \<lparr>ev_split_test = None, ev_output_dir = Some ''new''\<rparr>
                      (toy_trainer, toy_moved_sys)))) ! 0 = EvLoadModel ''roberta-base'' \<and>
   language_model toy_trainer = ''roberta-base''"
  by (simp add: moved_evaluate_run) (simp add: toy_defs pj_def path_exists_def)

text \<open>
  C4, amended. The best-model path is computed once, by the constructor, from the output
  location it is given, and \<^verbatim>\<open>evaluate\<close> changes neither it nor the model identifier. On
  every call to \<^verbatim>\<open>evaluate\<close> that gets past the output-location assertion, exactly one
  model is loaded, and it is loaded first: from that path when it exists on disk, and
  from the configured model identifier otherwise.
\<close>

theorem evaluate_model_source:
  "(TrainerTextClassification_init env ia s0 = (Inr t0, s1) \<longrightarrow>
      pj (i_output_dir ia) ''best_model'' = Inr (best_model_path t0)) \<and>
   (evaluate env a (t, s) = (res, st') \<longrightarrow>
      best_model_path (fst st') = best_model_path t \<and> language_model (fst st') = language_model t \<and>
      ((res = Inl (AssertionError ''output_dir should be specified.'') \<and> trace (snd st') = trace s) \<or>
       (\<exists>rest. trace (snd st') =
                 trace s @ EvLoadModel (if path_exists (fs s) (best_model_path t)
                                        then best_model_path t else language_model t) # rest \<and>
               list_all (\<lambda>ev. \<not> is_load ev) rest)))"
proof (intro conjI impI)
  assume "TrainerTextClassification_init env ia s0 = (Inr t0, s1)"
  from init_Inr [OF this] show "pj (i_output_dir ia) ''best_model'' = Inr (best_model_path t0)"
    by auto
next
  assume run: "evaluate env a (t, s) = (res, st')"
  from keepsD [OF paths_fixed_evaluate _ run, of "best_model_path t" "best_run_hyperparameters_path t" "language_model t"]
  show "best_model_path (fst st') = best_model_path t" by simp
next
  assume run: "evaluate env a (t, s) = (res, st')"
  from keepsD [OF paths_fixed_evaluate _ run, of "best_model_path t" "best_run_hyperparameters_path t" "language_model t"]
  show "language_model (fst st') = language_model t" by simp
next
  let ?src = "if path_exists (fs s) (best_model_path t) then best_model_path t else language_model t"
  assume run: "evaluate env a (t, s) = (res, st')"
  then show "(res = Inl (AssertionError ''output_dir should be specified.'') \<and> trace (snd st') = trace s) \<or>
       (\<exists>rest. trace (snd st') = trace s @ EvLoadModel ?src # rest \<and> list_all (\<lambda>ev. \<not> is_load ev) rest)"
    unfolding evaluate_def
  proof (cases rule: pbind_cases)
    case (fail e)
    from evaluate_load_model_outcomes [OF fail(1)] fail(2) show ?thesis by auto
  next
    case (run x st1)
    from evaluate_load_model_outcomes [OF run(1)]
    have 1: "trace (snd st1) = trace s @ [EvLoadModel ?src]" by simp
    obtain d m where x: "x = (d, m)" by (cases x)
    from run(2) have "evaluate_report env d m st1 = (res, st')" by (simp add: x)
    with emits_evaluate_report obtain evs where "trace (snd st') = trace (snd st1) @ evs"
      and "list_all (\<lambda>ev. \<not> is_load ev) evs"
      by (rule emits_extends)
    with 1 show ?thesis by simp
  qed
qed

theorem evaluate_model_source_witness:
  "fst (TrainerTextClassification_init toy_env toy_init_args ((), toy_sys)) = Inr toy_trainer \<and>
   pj (i_output_dir toy_init_args) ''best_model'' = Inr (best_model_path toy_trainer) \<and>
   \<not> path_exists (fs toy_sys) (best_model_path toy_trainer) \<and>
   (\<exists>rest. trace (snd (snd (evaluate toy_env \<lparr>ev_split_test = None, ev_output_dir = None\<rparr>
                                (toy_trainer, toy_sys)))) =
             trace toy_sys @ EvLoadModel (language_model toy_trainer) # rest \<and>
           list_all (\<lambda>ev. \<not> is_load ev) rest)"
  using evaluate_model_source
    [of toy_env toy_init_args "((), toy_sys)" toy_trainer
        "snd (TrainerTextClassification_init toy_env toy_init_args ((), toy_sys))"
        "\<lparr>ev_split_test = None, ev_output_dir = None\<rparr>" toy_trainer toy_sys
        "fst (evaluate toy_env \<lparr>ev_split_test = None, ev_output_dir = None\<rparr> (toy_trainer, toy_sys))"
        "snd (evaluate toy_env \<lparr>ev_split_test = None, ev_output_dir = None\<rparr> (toy_trainer, toy_sys))"]
    run_eq [OF toy_init_run]
  by (simp add: toy_init_run toy_evaluate_run) (simp add: toy_defs path_exists_def)

text \<open>
  C6, counterexample. Two labels with the same id: the derived mapping has one entry for
  two, and the id does not lead back to the first label.
\<close>

theorem id2label_counterexample:
  "fst (TrainerTextClassification_init toy_env
          (toy_init_args\<lparr>i_label_to_id := [(''negative'', 0), (''positive'', 0)]\<rparr>) ((), toy_sys)) =
     Inr (toy_trainer\<lparr>model_config :=
            \<lparr>label2id = [(''negative'', 0), (''positive'', 0)],
             id2label = [(0, ''positive'')], problem_type = None\<rparr>\<rparr>) \<and>
   length [(0::int, ''positive'')] \<noteq> length [(''negative'', 0::int), (''positive'', 0)] \<and>
   map_of [(0::int, ''positive'')] 0 \<noteq> Some ''negative''"
  by (simp add: toy_init_duplicate_ids_run)

text \<open>
  C6, amended. For every label-to-id mapping of size K with pairwise distinct ids, the
  id-to-label mapping derived at construction is its exact inverse on all K entries: it
  has K entries, in the same order, and looking up the id of any pair returns its label.
\<close>

theorem id2label_inverse:
  assumes "TrainerTextClassification_init env a s = (Inr t, s')"
    and "distinct (map snd (i_label_to_id a))"
  shows "label2id (model_config t) = i_label_to_id a \<and>
         id2label (model_config t) = map (\<lambda>(label, i). (i, label)) (i_label_to_id a) \<and>
         length (id2label (model_config t)) = length (i_label_to_id a) \<and>
         (\<forall>(label, i) \<in> set (i_label_to_id a). map_of (id2label (model_config t)) i = Some label)"
proof -
  from init_Inr [OF assms(1)] have l2i: "label2id (model_config t) = i_label_to_id a"
    and i2l: "id2label (model_config t) = invert_dict (i_label_to_id a)"
    by auto
  have inv: "id2label (model_config t) = map (\<lambda>(label, i). (i, label)) (i_label_to_id a)"
    unfolding i2l by (rule invert_dict_distinct) (rule assms(2))
  have fst_inv: "map fst (map (\<lambda>(label, i). (i, label)) (i_label_to_id a)) = map snd (i_label_to_id a)"
    by (induction "i_label_to_id a") auto
  have "\<forall>(label, i) \<in> set (i_label_to_id a). map_of (id2label (model_config t)) i = Some label"
  proof (clarify)
    fix label i assume "(label, i) \<in> set (i_label_to_id a)"
    then have "(i, label) \<in> set (map (\<lambda>(label, i). (i, label)) (i_label_to_id a))" by force
    moreover have "distinct (map fst (map (\<lambda>(label, i). (i, label)) (i_label_to_id a)))"
      unfolding fst_inv by (rule assms(2))
    ultimately show "map_of (id2label (model_config t)) i = Some label"
      unfolding inv by (rule map_of_is_SomeI [rotated])
  qed
  with l2i inv show ?thesis by simp
qed

theorem id2label_inverse_witness:
  "fst (TrainerTextClassification_init toy_env toy_init_args ((), toy_sys)) = Inr toy_trainer \<and>
   distinct (map snd (i_label_to_id toy_init_args)) \<and>
   i_label_to_id toy_init_args = [(''negative'', 0), (''neutral'', 1), (''positive'', 2)] \<and>
   id2label (model_config toy_trainer) = [(0, ''negative''), (1, ''neutral''), (2, ''positive'')] \<and>
   length (id2label (model_config toy_trainer)) = 3 \<and>
   map_of (id2label (model_config toy_trainer)) 0 = Some ''negative'' \<and>
   map_of (id2label (model_config toy_trainer)) 1 = Some ''neutral'' \<and>
   map_of (id2label (model_config toy_trainer)) 2 = Some ''positive''"
  using id2label_inverse [OF run_eq [OF toy_init_run]]
  by (simp add: toy_init_run) (simp add: toy_defs)

text \<open>
  C10. Whenever \<^verbatim>\<open>train\<close> starts the hyperparameter search, the candidate epoch counts
  of the search space it passes are the integers \<open>lo, lo + 1, \<dots>, hi - 1\<close> of the epoch
  range \<open>[lo, hi]\<close> (the given one, or the default \<open>[1, 6]\<close>): the upper bound is not a
  candidate, and there is no candidate when \<open>hi \<le> lo\<close>.
\<close>

theorem epoch_candidates_exclude_upper_bound:
  assumes "train env a st = (res, st')"
    and "trace (snd st') = trace (snd st) @ evs"
    and "EvHyperparameterSearch sp d n \<in> set evs"
  shows "\<exists>lo hi. (case tr_search_range_epoch a of None \<Rightarrow> [1, 6] | Some r \<Rightarrow> r) = [lo, hi] \<and>
           num_train_epochs sp = [lo..hi - 1] \<and>
           set (num_train_epochs sp) = {k. lo \<le> k \<and> k < hi} \<and>
           hi \<notin> set (num_train_epochs sp) \<and>
           (hi \<le> lo \<longrightarrow> num_train_epochs sp = [])"
proof -
  have dss: "define_search_space a = Inr sp"
    using assms(1) unfolding train_def
  proof (cases rule: pbind_cases)
    case (fail e)
    from emitsD [OF emits_train_setup fail(1) assms(2)] assms(3)
    show ?thesis by (auto simp: list_all_iff is_search_def)
  next
    case (run trainer st1)
    from emits_train_setup run(1) obtain evs1 where 1: "trace (snd st1) = trace (snd st) @ evs1"
      and n1: "list_all (\<lambda>ev. \<not> is_search ev) evs1"
      by (rule emits_extends)
    from run(2) show ?thesis
    proof (cases rule: pbind_cases)
      case (fail e)
      with 1 assms(2) have "evs = evs1" by simp
      with n1 assms(3) show ?thesis by (auto simp: list_all_iff is_search_def)
    next
      case (run sp0 st2)
      then have sp0: "define_search_space a = Inr sp0" and st2: "st2 = st1" by simp_all
      from emits_train_search_finetune run(2) obtain evs2
        where 2: "trace (snd st') = trace (snd st2) @ evs2"
          and n2: "list_all (\<lambda>ev. \<forall>sp' d n. ev = EvHyperparameterSearch sp' d n \<longrightarrow> sp' = sp0) evs2"
        by (rule emits_extends)
      from 1 2 st2 assms(2) have "evs = evs1 @ evs2" by simp
      with assms(3) n1 n2 have "sp = sp0" by (auto simp: list_all_iff is_search_def)
      with sp0 show ?thesis by simp
    qed
  qed
  from define_search_space_Inr [OF dss] obtain lo hi
    where r: "(case tr_search_range_epoch a of None \<Rightarrow> [1, 6] | Some r \<Rightarrow> r) = [lo, hi]"
      and e: "num_train_epochs sp = [lo..hi - 1]"
    by blast
  have "set [lo..hi - 1] = {k. lo \<le> k \<and> k < hi}" by auto
  with r e show ?thesis by auto
qed

lemma toy_train_eq:
  "train toy_env train_defaults (toy_trainer, toy_sys) =
     (Inr (), snd (train toy_env train_defaults (toy_trainer, toy_sys)))"
  using toy_train_run by (simp add: prod_eq_iff)

theorem epoch_candidates_exclude_upper_bound_witness:
  "fst (train toy_env train_defaults (toy_trainer, toy_sys)) = Inr () \<and>
   EvHyperparameterSearch
     \<lparr>learning_rate = (1 / 1000000, 1 / 10000), num_train_epochs = [1, 2, 3, 4, 5],
      per_device_train_batch_size = [4, 8, 16, 32, 64]\<rparr> ''ray_result'' 10
     \<in> set (trace (snd (snd (train toy_env train_defaults (toy_trainer, toy_sys))))) \<and>
   (\<exists>lo hi. (case tr_search_range_epoch train_defaults of None \<Rightarrow> [1, 6] | Some r \<Rightarrow> r) = [lo, hi] \<and>
      [1, 2, 3, 4, 5] = [lo..hi - 1] \<and> set [1, 2, 3, 4, 5] = {k. lo \<le> k \<and> k < hi} \<and>
      hi \<notin> set [1, 2, 3, 4, 5 :: int])"
  using epoch_candidates_exclude_upper_bound
    [OF toy_train_eq,
      of "trace (snd (snd (train toy_env train_defaults (toy_trainer, toy_sys))))"
         "\<lparr>learning_rate = (1 / 1000000, 1 / 10000), num_train_epochs = [1, 2, 3, 4, 5],
           per_device_train_batch_size = [4, 8, 16, 32, 64]\<rparr>" "''ray_result''" 10]
  by (simp add: toy_train_run) (simp add: toy_defs)

text \<open>
  C5. In multi-label mode a finite logit below about \<open>-709.78\<close> makes \<^verbatim>\<open>math.exp(-x)\<close>
  overflow: the prediction step raises \<^verbatim>\<open>OverflowError\<close> and yields no prediction,
  where the claim asks for the entry 0.
\<close>

theorem sigmoid_overflow:
  "predict True [[1 / 2, - 1000]] = Inl OverflowError \<and>
   compute_metric_all compute \<lparr>mf_multi_label = True, metric_accuracy = acc, metric_f1 = f1\<rparr>
     ([[1 / 2, - 1000]], labels) = Inl OverflowError \<and>
   compute_metric_search compute \<lparr>mf_multi_label = True, metric_accuracy = acc, metric_f1 = f1\<rparr>
     ([[1 / 2, - 1000]], labels) = Inl OverflowError"
  by (simp add: compute_metric_all_def compute_metric_search_def predict_def threshold_in_range
      threshold_overflow o_threshold_def)

text \<open>
  C2, counterexample. The shell reports that the command failed (exit status 1, which
  \<^verbatim>\<open>os.system\<close> returns as 256); \<^verbatim>\<open>push_to_hub\<close> returns normally.
\<close>

theorem shell_failure_counterexample:
  "fst (push_to_hub failing_shell_env toy_push_args (toy_trainer, toy_hub_sys)) = Inr () \<and>
   last (trace (snd (snd (push_to_hub failing_shell_env toy_push_args (toy_trainer, toy_hub_sys))))) =
     EvSystem (git_command ''toy-model'') 256"
  by (simp add: failing_shell_push_run)

text \<open>
  C2, amended. \<^verbatim>\<open>push_to_hub\<close> discards the exit status of the shell: whenever the shell
  command has been issued, whatever its exit status, \<^verbatim>\<open>push_to_hub\<close> returns normally.
  A failure of \<^verbatim>\<open>push_to_hub\<close> always comes from a step before the shell command.
\<close>

theorem shell_status_discarded:
  assumes "push_to_hub env a st = (res, st')"
    and "trace (snd st') = trace (snd st) @ evs"
    and "EvSystem cmd status \<in> set evs"
  shows "res = Inr ()"
proof -
  from push_to_hub_fails_before_shell assms(1) obtain evs'
    where "trace (snd st') = trace (snd st) @ evs'"
      and "isl res \<longrightarrow> list_all (\<lambda>ev. \<not> is_system ev) evs'"
    by (rule emits_unless_ok_extends)
  with assms(2,3) have "\<not> isl res" by (auto simp: list_all_iff is_system_def)
  then show ?thesis by (cases res) auto
qed

theorem shell_status_discarded_witness:
  "EvSystem (git_command ''toy-model'') 256
     \<in> set (trace (snd (snd (push_to_hub failing_shell_env toy_push_args (toy_trainer, toy_hub_sys))))) \<and>
   fst (push_to_hub failing_shell_env toy_push_args (toy_trainer, toy_hub_sys)) = Inr ()"
  using shell_status_discarded
    [of failing_shell_env toy_push_args "(toy_trainer, toy_hub_sys)"
        "fst (push_to_hub failing_shell_env toy_push_args (toy_trainer, toy_hub_sys))"
        "snd (push_to_hub failing_shell_env toy_push_args (toy_trainer, toy_hub_sys))"
        "trace (snd (snd (push_to_hub failing_shell_env toy_push_args (toy_trainer, toy_hub_sys))))"
        "git_command ''toy-model''" 256]
  by (simp add: failing_shell_push_run)

lemma define_search_space_bad:
  assumes "(\<exists>r. tr_search_range_lr a = Some r \<and> length r \<noteq> 2) \<or>
           (\<exists>r. tr_search_range_epoch a = Some r \<and> length r \<noteq> 2)"
  shows "define_search_space a =
           Inl (AssertionError (if \<exists>r. tr_search_range_lr a = Some r \<and> length r \<noteq> 2
                                then ''len(search_range_lr) should be 2''
                                else ''len(search_range_epoch) should be 2''))"
  using assms by (auto simp: define_search_space_def Let_def split: option.splits)

lemma define_search_space_good:
  assumes "\<forall>r. tr_search_range_lr a = Some r \<longrightarrow> length r = 2"
    and "\<forall>r. tr_search_range_epoch a = Some r \<longrightarrow> length r = 2"
  shows "\<exists>sp. define_search_space a = Inr sp"
  using assms by (auto simp: define_search_space_def Let_def split: option.splits)

text \<open>
  C3, counterexample. The learning-rate range has one bound, and the object has no
  training split: \<^verbatim>\<open>train\<close> fails with the \<^verbatim>\<open>KeyError\<close> of the split lookup on line 145,
  not with an assertion violation.
\<close>

theorem search_range_counterexample:
  "tr_search_range_lr (train_defaults\<lparr>tr_search_range_lr := Some [1 / 100000]\<rparr>) = Some [1 / 100000] \<and>
   length [1 / 100000 :: real] \<noteq> 2 \<and>
   fst (train toy_env (train_defaults\<lparr>tr_search_range_lr := Some [1 / 100000]\<rparr>)
          (toy_trainer\<lparr>split_train := None\<rparr>, toy_sys)) = Inl KeyError"
  by (simp add: toy_train_no_split_run)

text \<open>
  C3, amended. For every call to \<^verbatim>\<open>train\<close> in which a learning-rate range or an epoch
  range is given as a list whose length is not 2, \<^verbatim>\<open>train\<close> fails and no hyperparameter
  search is started; the failure is the assertion violation of the malformed range (of
  the learning-rate range when both are malformed) whenever the steps before the check
  (output location, directories, splits, \<^verbatim>\<open>Trainer\<close>) succeed, and an earlier failure
  otherwise. When every given range has length 2, \<^verbatim>\<open>train\<close> never fails with one of the
  two search-range assertions.
\<close>

theorem search_range_rejected:
  assumes "train env a st = (res, st')"
  shows "((\<exists>r. tr_search_range_lr a = Some r \<and> length r \<noteq> 2) \<or>
          (\<exists>r. tr_search_range_epoch a = Some r \<and> length r \<noteq> 2) \<longrightarrow>
            isl res \<and>
            (\<exists>evs. trace (snd st') = trace (snd st) @ evs \<and> list_all (\<lambda>ev. \<not> is_search ev) evs) \<and>
            (\<forall>trainer st1. train_setup env a st = (Inr trainer, st1) \<longrightarrow>
               st' = st1 \<and>
               res = Inl (AssertionError (if \<exists>r. tr_search_range_lr a = Some r \<and> length r \<noteq> 2
                                          then ''len(search_range_lr) should be 2''
                                          else ''len(search_range_epoch) should be 2''))) \<and>
            (\<forall>e st1. train_setup env a st = (Inl e, st1) \<longrightarrow> st' = st1 \<and> res = Inl e)) \<and>
         ((\<forall>r. tr_search_range_lr a = Some r \<longrightarrow> length r = 2) \<and>
          (\<forall>r. tr_search_range_epoch a = Some r \<longrightarrow> length r = 2) \<longrightarrow>
            res \<noteq> Inl (AssertionError ''len(search_range_lr) should be 2'') \<and>
            res \<noteq> Inl (AssertionError ''len(search_range_epoch) should be 2''))"
proof (intro conjI impI)
  assume bad: "(\<exists>r. tr_search_range_lr a = Some r \<and> length r \<noteq> 2) \<or>
          (\<exists>r. tr_search_range_epoch a = Some r \<and> length r \<noteq> 2)"
  let ?msg = "if \<exists>r. tr_search_range_lr a = Some r \<and> length r \<noteq> 2
              then ''len(search_range_lr) should be 2'' else ''len(search_range_epoch) should be 2''"
  have dss: "define_search_space a = Inl (AssertionError ?msg)"
    by (rule define_search_space_bad [OF bad])
  have cases: "(\<exists>e. train_setup env a st = (Inl e, st') \<and> res = Inl e) \<or>
               (\<exists>trainer. train_setup env a st = (Inr trainer, st') \<and> res = Inl (AssertionError ?msg))"
    using assms unfolding train_def
  proof (cases rule: pbind_cases)
    case (fail e)
    then show ?thesis by blast
  next
    case (run trainer st1)
    from run(2) dss have "res = Inl (AssertionError ?msg)" and "st' = st1"
      by (simp_all add: pbind_def)
    with run(1) show ?thesis by blast
  qed
  from cases show "isl res" by auto
  from cases obtain r where first: "train_setup env a st = (r, st')" by blast
  from emits_train_setup first
  show "\<exists>evs. trace (snd st') = trace (snd st) @ evs \<and> list_all (\<lambda>ev. \<not> is_search ev) evs"
    by (rule emits_extends) blast
  from cases
  show "\<forall>trainer st1. train_setup env a st = (Inr trainer, st1) \<longrightarrow>
          st' = st1 \<and> res = Inl (AssertionError ?msg)"
    by auto
  from cases
  show "\<forall>e st1. train_setup env a st = (Inl e, st1) \<longrightarrow> st' = st1 \<and> res = Inl e"
    by auto
next
  assume good: "(\<forall>r. tr_search_range_lr a = Some r \<longrightarrow> length r = 2) \<and>
          (\<forall>r. tr_search_range_epoch a = Some r \<longrightarrow> length r = 2)"
  then obtain sp where sp: "define_search_space a = Inr sp"
    using define_search_space_good by blast
  from keepsD [OF search_range_ok_train [OF sp] _ assms]
  have "\<forall>e \<in> search_range_assertions. res \<noteq> Inl e" by simp
  then show "res \<noteq> Inl (AssertionError ''len(search_range_lr) should be 2'')"
    and "res \<noteq> Inl (AssertionError ''len(search_range_epoch) should be 2'')"
    by (simp_all add: search_range_assertions_def)
qed

theorem search_range_rejected_witness:
  "tr_search_range_lr (train_defaults\<lparr>tr_search_range_lr := Some [1 / 100000]\<rparr>) = Some [1 / 100000] \<and>
   length [1 / 100000 :: real] \<noteq> 2 \<and>
   fst (train toy_env (train_defaults\<lparr>tr_search_range_lr := Some [1 / 100000]\<rparr>) (toy_trainer, toy_sys)) =
     Inl (AssertionError ''len(search_range_lr) should be 2'') \<and>
   list_all (\<lambda>ev. \<not> is_search ev)
     (trace (snd (snd (train toy_env (train_defaults\<lparr>tr_search_range_lr := Some [1 / 100000]\<rparr>)
                         (toy_trainer, toy_sys))))) \<and>
   tr_search_range_lr train_defaults = None \<and> tr_search_range_epoch train_defaults = None \<and>
   fst (train toy_env train_defaults (toy_trainer, toy_sys)) = Inr () \<and>
   fst (train toy_env train_defaults (toy_trainer, toy_sys)) \<noteq>
     Inl (AssertionError ''len(search_range_lr) should be 2'')"
  using search_range_rejected [OF toy_train_bad_range_run] search_range_rejected [OF toy_train_eq]
  by (simp add: toy_train_bad_range_run toy_train_run is_search_def) (simp add: toy_defs)

lemma apply_hyperparameters_lookup:
  "map_of (apply_hyperparameters hp targs) =
     (map_of targs ++ map_of (rev hp))(''evaluation_strategy'' \<mapsto> PStr ''no'')"
  by (simp add: apply_hyperparameters_def map_of_setitem map_of_fold_setitem)

text \<open>
  C8. On every successful \<^verbatim>\<open>train\<close>, the calls that follow the hyperparameter search
  are, in this order and with nothing in between: the JSON text of the winning
  hyperparameters is written to the best-hyperparameters file; the engine trains once,
  with training arguments in which every winning hyperparameter has been set and the
  evaluation strategy is \<^verbatim>\<open>no\<close>; the model it returns is saved at the best-model path.
\<close>

theorem train_finetunes_best_run:
  assumes "train env a (t, s) = (Inr u, st')"
  shows "\<exists>d targs trainer sp best body m w1 w2 w3.
      t_args trainer = targs \<and>
      hyperparameter_search env trainer sp (tr_ray_result_dir a) (tr_n_trials a)
        (resources_per_trial env (tr_parallel_cpu a)) w1 = (Inr best, w2) \<and>
      json_dumps env None (hyperparameters best) = Inr body \<and>
      trainer_train env (trainer\<lparr>t_args := apply_hyperparameters (hyperparameters best) targs\<rparr>)
        (w2\<lparr>files := (files w2)(best_run_hyperparameters_path t \<mapsto> body)\<rparr>) = (Inr m, w3) \<and>
      save_model env m (best_model_path t) w3 = (Inr (), fs (snd st')) \<and>
      trace (snd st') = trace s @
        [EvMakedirs d, EvTrainerInit targs,
         EvHyperparameterSearch sp (tr_ray_result_dir a) (tr_n_trials a),
         EvOpen (best_run_hyperparameters_path t),
         EvWrite (best_run_hyperparameters_path t) body,
         EvTrain (apply_hyperparameters (hyperparameters best) targs),
         EvSaveModel (best_model_path t)] \<and>
      map_of (apply_hyperparameters (hyperparameters best) targs) ''evaluation_strategy'' =
        Some (PStr ''no'') \<and>
      (distinct (map fst (hyperparameters best)) \<longrightarrow>
         (\<forall>(name, v) \<in> set (hyperparameters best).
            name \<noteq> ''evaluation_strategy'' \<longrightarrow>
            map_of (apply_hyperparameters (hyperparameters best) targs) name = Some v))"
proof -
  from train_Inr [OF assms] obtain d t1 targs train_ds eval_ds trainer sp best body m w0 w1 w2 w3 w4
    where t1: "t1 = (case tr_split_validation a of None \<Rightarrow> (\<lambda>t. t) | Some v \<Rightarrow> (\<lambda>t. t\<lparr>split_validation := Some v\<rparr>))
            ((case tr_split_train a of None \<Rightarrow> (\<lambda>t. t) | Some v \<Rightarrow> (\<lambda>t. t\<lparr>split_train := Some v\<rparr>))
            ((case tr_output_dir a of None \<Rightarrow> (\<lambda>t. t) | Some v \<Rightarrow> (\<lambda>t. t\<lparr>output_dir := Some v\<rparr>)) t))"
      and trainer: "trainer = \<lparr>t_model = model t1, t_args = targs,
                 t_train_dataset = Some train_ds, t_eval_dataset = Some eval_ds,
                 t_compute_metrics = compute_metric_search (metric_compute env) (metrics t1),
                 t_model_init = Some (load_model env ReturnDict (language_model t1)
                                        (use_auth_token t1) (model_config t1))\<rparr>"
      and search: "hyperparameter_search env trainer sp (tr_ray_result_dir a) (tr_n_trials a)
        (resources_per_trial env (tr_parallel_cpu a)) w1 = (Inr best, w2)"
      and body: "json_dumps env None (hyperparameters best) = Inr body"
      and tr: "trainer_train env (trainer\<lparr>t_args := apply_hyperparameters (hyperparameters best) targs\<rparr>)
        (w2\<lparr>files := (files w2)(best_run_hyperparameters_path t1 \<mapsto> body)\<rparr>) = (Inr m, w3)"
      and save: "save_model env m (best_model_path t1) w3 = (Inr (), w4)"
      and st': "st' = (t1, \<lparr>fs = w4,
                  trace = trace s @
                    [EvMakedirs d, EvTrainerInit targs,
                     EvHyperparameterSearch sp (tr_ray_result_dir a) (tr_n_trials a),
                     EvOpen (best_run_hyperparameters_path t1),
                     EvWrite (best_run_hyperparameters_path t1) body,
                     EvTrain (apply_hyperparameters (hyperparameters best) targs),
                     EvSaveModel (best_model_path t1)]\<rparr>)"
    by blast
  have paths: "best_run_hyperparameters_path t1 = best_run_hyperparameters_path t"
    "best_model_path t1 = best_model_path t"
    unfolding t1 by (simp_all split: option.splits)
  have targs: "t_args trainer = targs" by (simp add: trainer)
  have no: "map_of (apply_hyperparameters (hyperparameters best) targs) ''evaluation_strategy'' =
        Some (PStr ''no'')"
    by (simp add: apply_hyperparameters_lookup)
  have applied: "distinct (map fst (hyperparameters best)) \<longrightarrow>
         (\<forall>(name, v) \<in> set (hyperparameters best).
            name \<noteq> ''evaluation_strategy'' \<longrightarrow>
            map_of (apply_hyperparameters (hyperparameters best) targs) name = Some v)"
    by (auto simp: apply_hyperparameters_lookup map_of_rev_distinct map_add_Some_iff)
  from targs search body tr save no applied show ?thesis
    unfolding st' paths by (intro exI conjI) (assumption | simp)+
qed

theorem train_finetunes_best_run_witness:
  "fst (train toy_env train_defaults (toy_trainer, toy_sys)) = Inr () \<and>
   (\<exists>d targs trainer sp best body m w1 w2 w3.
      t_args trainer = targs \<and>
      hyperparameter_search toy_env trainer sp (tr_ray_result_dir train_defaults) (tr_n_trials train_defaults)
        (resources_per_trial toy_env (tr_parallel_cpu train_defaults)) w1 = (Inr best, w2) \<and>
      json_dumps toy_env None (hyperparameters best) = Inr body \<and>
      trainer_train toy_env (trainer\<lparr>t_args := apply_hyperparameters (hyperparameters best) targs\<rparr>)
        (w2\<lparr>files := (files w2)(best_run_hyperparameters_path toy_trainer \<mapsto> body)\<rparr>) = (Inr m, w3) \<and>
      save_model toy_env m (best_model_path toy_trainer) w3 = (Inr (), fs (snd (snd (train toy_env train_defaults (toy_trainer, toy_sys))))) \<and>
      trace (snd (snd (train toy_env train_defaults (toy_trainer, toy_sys)))) = trace toy_sys @
        [EvMakedirs d, EvTrainerInit targs,
         EvHyperparameterSearch sp (tr_ray_result_dir train_defaults) (tr_n_trials train_defaults),
         EvOpen (best_run_hyperparameters_path toy_trainer),
         EvWrite (best_run_hyperparameters_path toy_trainer) body,
         EvTrain (apply_hyperparameters (hyperparameters best) targs),
         EvSaveModel (best_model_path toy_trainer)] \<and>
      map_of (apply_hyperparameters (hyperparameters best) targs) ''evaluation_strategy'' =
        Some (PStr ''no'') \<and>
      (distinct (map fst (hyperparameters best)) \<longrightarrow>
         (\<forall>(name, v) \<in> set (hyperparameters best).
            name \<noteq> ''evaluation_strategy'' \<longrightarrow>
            map_of (apply_hyperparameters (hyperparameters best) targs) name = Some v)))"
  by (rule conjI [OF _ train_finetunes_best_run [OF toy_train_eq]]) (simp add: toy_train_run)

text \<open>
  C9. Constructing the object with an unset output location fails; every constructed
  object has an output location (it is not \<^verbatim>\<open>None\<close>); \<^verbatim>\<open>train\<close>, \<^verbatim>\<open>evaluate\<close> and
  \<^verbatim>\<open>push_to_hub\<close> keep it set, however they end, and on an object whose output location
  is set none of them fails with one of the output-location assertions.
\<close>

theorem output_dir_always_set:
  "(i_output_dir ia = None \<longrightarrow> isl (fst (TrainerTextClassification_init env ia s0))) \<and>
   (TrainerTextClassification_init env ia s0 = (Inr t0, s1) \<longrightarrow> output_dir t0 \<noteq> None) \<and>
   (output_dir (fst st) \<noteq> None \<longrightarrow>
      output_dir (fst (snd (train env ta st))) \<noteq> None \<and>
      fst (train env ta st) \<noteq> Inl (AssertionError ''output_dir should be specified.'') \<and>
      output_dir (fst (snd (evaluate env ea st))) \<noteq> None \<and>
      fst (evaluate env ea st) \<noteq> Inl (AssertionError ''output_dir should be specified.'') \<and>
      fst (evaluate env ea st) \<noteq> Inl (AssertionError ''output_dir is not defined'') \<and>
      output_dir (fst (snd (push_to_hub env pa st))) \<noteq> None \<and>
      fst (push_to_hub env pa st) \<noteq> Inl (AssertionError ''output_dir should be specified.'') \<and>
      fst (push_to_hub env pa st) \<noteq> Inl (AssertionError ''output_dir is not defined''))"
proof (intro conjI impI)
  assume unset: "i_output_dir ia = None"
  show "isl (fst (TrainerTextClassification_init env ia s0))"
  proof (cases "fst (TrainerTextClassification_init env ia s0)")
    case (Inl e)
    then show ?thesis by simp
  next
    case (Inr t0)
    then have "TrainerTextClassification_init env ia s0 =
        (Inr t0, snd (TrainerTextClassification_init env ia s0))"
      by (rule run_eq)
    from init_Inr [OF this] unset show ?thesis by simp
  qed
next
  assume "TrainerTextClassification_init env ia s0 = (Inr t0, s1)"
  from init_Inr [OF this] show "output_dir t0 \<noteq> None" by auto
next
  assume I: "output_dir (fst st) \<noteq> None"
  have 1: "output_dir (fst (snd (train env ta st))) \<noteq> None \<and>
           (\<forall>e \<in> output_dir_assertions. fst (train env ta st) \<noteq> Inl e)"
    by (rule keepsD [OF output_dir_set_train I]) simp
  have 2: "output_dir (fst (snd (evaluate env ea st))) \<noteq> None \<and>
           (\<forall>e \<in> output_dir_assertions. fst (evaluate env ea st) \<noteq> Inl e)"
    by (rule keepsD [OF output_dir_set_evaluate I]) simp
  have 3: "output_dir (fst (snd (push_to_hub env pa st))) \<noteq> None \<and>
           (\<forall>e \<in> output_dir_assertions. fst (push_to_hub env pa st) \<noteq> Inl e)"
    by (rule keepsD [OF output_dir_set_push_to_hub I]) simp
  from 1 show "output_dir (fst (snd (train env ta st))) \<noteq> None"
    and "fst (train env ta st) \<noteq> Inl (AssertionError ''output_dir should be specified.'')"
    by (simp_all add: output_dir_assertions_def)
  from 2 show "output_dir (fst (snd (evaluate env ea st))) \<noteq> None"
    and "fst (evaluate env ea st) \<noteq> Inl (AssertionError ''output_dir should be specified.'')"
    and "fst (evaluate env ea st) \<noteq> Inl (AssertionError ''output_dir is not defined'')"
    by (simp_all add: output_dir_assertions_def)
  from 3 show "output_dir (fst (snd (push_to_hub env pa st))) \<noteq> None"
    and "fst (push_to_hub env pa st) \<noteq> Inl (AssertionError ''output_dir should be specified.'')"
    and "fst (push_to_hub env pa st) \<noteq> Inl (AssertionError ''output_dir is not defined'')"
    by (simp_all add: output_dir_assertions_def)
qed

theorem output_dir_always_set_witness:
  "i_output_dir (toy_init_args\<lparr>i_output_dir := None\<rparr>) = None \<and>
   isl (fst (TrainerTextClassification_init toy_env (toy_init_args\<lparr>i_output_dir := None\<rparr>)
               ((), toy_sys))) \<and>
   fst (TrainerTextClassification_init toy_env toy_init_args ((), toy_sys)) = Inr toy_trainer \<and>
   output_dir toy_trainer \<noteq> None \<and>
   output_dir (fst (snd (train toy_env train_defaults (toy_trainer, toy_sys)))) \<noteq> None \<and>
   fst (evaluate toy_env \<lparr>ev_split_test = None, ev_output_dir = None\<rparr> (toy_trainer, toy_sys)) \<noteq>
     Inl (AssertionError ''output_dir should be specified.'') \<and>
   fst (push_to_hub toy_env toy_push_args (toy_trainer, toy_hub_sys)) \<noteq>
     Inl (AssertionError ''output_dir is not defined'')"
  using output_dir_always_set
      [of "toy_init_args\<lparr>i_output_dir := None\<rparr>" toy_env "((), toy_sys)" toy_trainer "((), toy_sys)"
          "(toy_trainer, toy_sys)" train_defaults "\<lparr>ev_split_test = None, ev_output_dir = None\<rparr>"
          toy_push_args]
    output_dir_always_set
      [of toy_init_args toy_env "((), toy_sys)" toy_trainer
          "snd (TrainerTextClassification_init toy_env toy_init_args ((), toy_sys))"
          "(toy_trainer, toy_hub_sys)" train_defaults "\<lparr>ev_split_test = None, ev_output_dir = None\<rparr>"
          toy_push_args]
    run_eq [OF toy_init_run]
  by (simp add: toy_init_run)

end
